theory Spec2Isabelle
  imports Complex_Main
begin

section \<open>Tensors and the framework operations used by the module\<close>

text \<open>
  The module \<^verbatim>\<open>synthetic/sssa.py\<close> defines one class, \<^verbatim>\<open>SSA\<close>. Its tensors are
  modelled as lists: a tensor of shape \<open>[batch]\<close> is a \<open>vec\<close>, a tensor of shape
  \<open>[batch, d]\<close> is a \<open>mat\<close> (a list of rows). In the steps, tensor entries are real
  numbers: rounding, infinities and NaN of the floating point format are left out
  there. The selection of the flow outputs is written for any number type, so that it
  can also be read over floating point values with infinities and NaN (the type
  \<open>fval\<close> below).

  The two loss functions of the reconstruction term follow the framework on operands
  of unequal shape as well. The other element-wise operations are written with
  \<open>map2\<close>: they describe the framework on operands of equal shape, which is what the
  encoder and the flows deliver (\<open>[batch, z_dim]\<close>, \<open>[batch, s_dim]\<close> and
  \<open>[batch]\<close>); theorems that depend on the shapes state them as hypotheses.
\<close>

type_synonym vec = "real list"
type_synonym mat = "real list list"

datatype error =
    AssertionError
  | UnboundLocalError
  | NotImplementedError
  | RuntimeError
  | IndexError
  | ValueError
  | FileNotFoundError

text \<open>Slices \<^verbatim>\<open>t[:, :n]\<close> and \<^verbatim>\<open>t[:, n:]\<close>.\<close>

definition cols_to :: "nat \<Rightarrow> mat \<Rightarrow> mat" where
  "cols_to n t = map (take n) t"

definition cols_from :: "nat \<Rightarrow> mat \<Rightarrow> mat" where
  "cols_from n t = map (drop n) t"

definition zeros_like :: "mat \<Rightarrow> mat" where
  "zeros_like t = map (map (\<lambda>_. 0)) t"

definition ones_like :: "mat \<Rightarrow> mat" where
  "ones_like t = map (map (\<lambda>_. 1)) t"

text \<open>\<^verbatim>\<open>t.mean()\<close> of a tensor of shape \<open>[batch]\<close>.\<close>

definition mean :: "vec \<Rightarrow> real" where
  "mean t = sum_list t / real (length t)"

text \<open>
  \<^verbatim>\<open>D.Normal(loc, scale).log_prob(value)\<close>: the log-density of a normal distribution,
  entry by entry.
\<close>

definition Normal_log_prob1 :: "real \<Rightarrow> real \<Rightarrow> real \<Rightarrow> real" where
  "Normal_log_prob1 loc scale v =
     - ((v - loc)\<^sup>2) / (2 * scale\<^sup>2) - ln scale - ln (sqrt (2 * pi))"

definition Normal_log_prob :: "mat \<Rightarrow> mat \<Rightarrow> mat \<Rightarrow> mat" where
  "Normal_log_prob loc scale v =
     map2 (\<lambda>(l, s) r. map2 (\<lambda>(l', s') x. Normal_log_prob1 l' s' x) (zip l s) r)
       (zip loc scale) v"

text \<open>
  \<^verbatim>\<open>base_dist\<close> is \<^verbatim>\<open>D.MultivariateNormal(zeros(s_dim), eye(s_dim))\<close>; its
  \<^verbatim>\<open>log_prob\<close> on one row of width \<open>s_dim\<close>.
\<close>

definition base_dist_log_prob :: "nat \<Rightarrow> vec \<Rightarrow> real" where
  "base_dist_log_prob sd e =
     - (real sd * ln (2 * pi) + sum_list (map (\<lambda>v. v\<^sup>2) e)) / 2"

text \<open>The loss functions of \<^verbatim>\<open>torch.nn.functional\<close>, with the sum reduction
  that \<^verbatim>\<open>size_average=False\<close> selects.\<close>

definition sigmoid :: "real \<Rightarrow> real" where
  "sigmoid v = 1 / (1 + exp (- v))"

text \<open>
  \<^verbatim>\<open>torch.broadcast_tensors\<close> of two two-dimensional tensors: along each dimension the
  sizes agree or one of them is 1, in which case that tensor is repeated; otherwise
  \<open>RuntimeError\<close>. A list does not record the width of a tensor without rows; it is
  taken as 0.
\<close>

definition width :: "'a list list \<Rightarrow> nat" where
  "width t = (case t of [] \<Rightarrow> 0 | r # _ \<Rightarrow> length r)"

definition broadcast_dim :: "nat \<Rightarrow> nat \<Rightarrow> nat option" where
  "broadcast_dim d1 d2 =
     (if d1 = d2 then Some d1 else if d1 = 1 then Some d2 else if d2 = 1 then Some d1
      else None)"

definition expand :: "nat \<Rightarrow> 'a list \<Rightarrow> 'a list" where
  "expand n xs = (if length xs = n then xs else replicate n (hd xs))"

definition broadcast_tensors :: "mat \<Rightarrow> mat \<Rightarrow> error + (mat \<times> mat)" where
  "broadcast_tensors a b =
     (case (broadcast_dim (length a) (length b), broadcast_dim (width a) (width b)) of
        (Some r, Some w) \<Rightarrow> Inr (map (expand w) (expand r a), map (expand w) (expand r b))
      | _ \<Rightarrow> Inl RuntimeError)"

text \<open>\<^verbatim>\<open>F.mse_loss\<close> broadcasts its two arguments;
  \<^verbatim>\<open>F.binary_cross_entropy_with_logits\<close> raises \<open>ValueError\<close> unless the target has the
  size of the input.\<close>

definition mse_loss_sum :: "mat \<Rightarrow> mat \<Rightarrow> error + real" where
  "mse_loss_sum inp target =
     (case broadcast_tensors inp target of
        Inl e \<Rightarrow> Inl e
      | Inr (inp', target') \<Rightarrow>
          Inr (sum_list (map2 (\<lambda>r t. sum_list (map2 (\<lambda>a b. (a - b)\<^sup>2) r t)) inp' target')))"

definition binary_cross_entropy_with_logits_sum :: "mat \<Rightarrow> mat \<Rightarrow> error + real" where
  "binary_cross_entropy_with_logits_sum inp target =
     (if map length target \<noteq> map length inp then Inl ValueError
      else Inr (sum_list (map2 (\<lambda>r t. sum_list (map2
        (\<lambda>a b. - (b * ln (sigmoid a) + (1 - b) * ln (1 - sigmoid a))) r t)) inp target)))"

text \<open>\<^verbatim>\<open>F.one_hot\<close> of one label, as a row of width \<open>n\<close>.\<close>

definition one_hot_row :: "nat \<Rightarrow> int \<Rightarrow> 'a :: {zero, one} list" where
  "one_hot_row n l = map (\<lambda>k. if int k = l then 1 else 0) [0..<n]"

text \<open>\<^verbatim>\<open>torch.stack(ts, axis=1)\<close> of tensors with a common first dimension.\<close>

definition stack_axis1 :: "'a list list \<Rightarrow> 'a list list" where
  "stack_axis1 ts = map (\<lambda>i. map (\<lambda>t. t ! i) ts) [0..<length (hd ts)]"

text \<open>\<^verbatim>\<open>.sum(1)\<close> of one batch entry of a \<open>[batch, nclass, s_dim]\<close> tensor.\<close>

definition sum_axis :: "'a :: monoid_add list list \<Rightarrow> 'a list" where
  "sum_axis vs = map (\<lambda>j. sum_list (map (\<lambda>v. v ! j) vs)) [0..<length (hd vs)]"

text \<open>\<^verbatim>\<open>t.reshape(b, s)\<close> of a two-dimensional tensor: the entries in row-major
  order, regrouped; an error when their number is not \<open>b * s\<close>.\<close>

definition reshape2 :: "nat \<Rightarrow> nat \<Rightarrow> 'a list list \<Rightarrow> error + 'a list list" where
  "reshape2 b s t =
     (let flat = concat t in
      if length flat \<noteq> b * s then Inl RuntimeError
      else Inr (map (\<lambda>i. take s (drop (i * s) flat)) [0..<b]))"

text \<open>\<^verbatim>\<open>str.lower\<close>. Only the letters A to Z change; that is exact for the comparison
  with the ASCII names below, since no other character lowers to an ASCII letter of
  those names.\<close>

definition lower_char :: "char \<Rightarrow> char" where
  "lower_char ch =
     (let n = (of_char ch :: nat) in if 65 \<le> n \<and> n \<le> 90 then char_of (n + 32) else ch)"

definition lower :: "string \<Rightarrow> string" where
  "lower s = map lower_char s"

section \<open>Floating point values\<close>

text \<open>
  A floating point value is a finite number, one of the two infinities or NaN. Sums
  and products follow IEEE 754 on these: NaN absorbs, opposite infinities add up to
  NaN, and an infinity times zero is NaN. Rounding and the sign of zero are left out.
\<close>

datatype fval = Fin real | PInf | MInf | NaN

fun is_finite :: "fval \<Rightarrow> bool" where
  "is_finite (Fin _) = True"
| "is_finite _ = False"

instantiation fval :: monoid_add
begin

definition zero_fval :: fval where
  "zero_fval = Fin 0"

fun plus_fval :: "fval \<Rightarrow> fval \<Rightarrow> fval" where
  "plus_fval NaN _ = NaN"
| "plus_fval _ NaN = NaN"
| "plus_fval (Fin a) (Fin b) = Fin (a + b)"
| "plus_fval PInf MInf = NaN"
| "plus_fval MInf PInf = NaN"
| "plus_fval PInf _ = PInf"
| "plus_fval _ PInf = PInf"
| "plus_fval MInf _ = MInf"
| "plus_fval _ MInf = MInf"

instance
proof
  fix a b c :: fval
  show "a + b + c = a + (b + c)"
    by (cases a; cases b; cases c) simp_all
  show "0 + a = a"
    by (cases a) (simp_all add: zero_fval_def)
  show "a + 0 = a"
    by (cases a) (simp_all add: zero_fval_def)
qed

end

instantiation fval :: "{times, one}"
begin

definition one_fval :: fval where
  "one_fval = Fin 1"

fun times_fval :: "fval \<Rightarrow> fval \<Rightarrow> fval" where
  "times_fval NaN _ = NaN"
| "times_fval _ NaN = NaN"
| "times_fval (Fin a) (Fin b) = Fin (a * b)"
| "times_fval (Fin a) PInf = (if a = 0 then NaN else if 0 < a then PInf else MInf)"
| "times_fval (Fin a) MInf = (if a = 0 then NaN else if 0 < a then MInf else PInf)"
| "times_fval PInf (Fin b) = (if b = 0 then NaN else if 0 < b then PInf else MInf)"
| "times_fval MInf (Fin b) = (if b = 0 then NaN else if 0 < b then MInf else PInf)"
| "times_fval PInf PInf = PInf"
| "times_fval PInf MInf = MInf"
| "times_fval MInf PInf = MInf"
| "times_fval MInf MInf = PInf"

instance ..

end

section \<open>The imported components\<close>

text \<open>
  \<^verbatim>\<open>BetaVAE_MLP\<close>, \<^verbatim>\<open>NormalizingFlow\<close>, \<^verbatim>\<open>compute_mcc\<close>, \<^verbatim>\<open>compute_r2\<close> and
  \<^verbatim>\<open>torch.load\<close> are imported by the module and are not part of it. They are
  parameters of the model. A flow module is identified with its state
  dictionary \<open>'p\<close>; its forward map returns the transformed rows and one
  log-determinant per row.
\<close>

record flow_args =
  fa_input_dim :: nat
  fa_n_layers :: nat
  fa_bound :: real
  fa_count_bins :: nat
  fa_order :: string

record net_args =
  na_input_dim :: nat
  na_output_dim :: nat
  na_z_dim :: nat
  na_slope :: real
  na_encoder_n_layers :: nat
  na_decoder_n_layers :: nat
  na_hidden_dim :: nat

record 'p components =
  NormalizingFlow_new :: "flow_args \<Rightarrow> nat \<Rightarrow> 'p"
  NormalizingFlow_forward :: "'p \<Rightarrow> mat \<Rightarrow> mat \<times> vec"
  state_dict_fits :: "'p \<Rightarrow> 'p \<Rightarrow> bool"
  torch_load :: "string option \<Rightarrow> error + 'p"
  BetaVAE_MLP_new :: "net_args \<Rightarrow> mat \<Rightarrow> mat \<times> mat \<times> mat \<times> mat"
  Embedding_new :: "nat \<Rightarrow> nat \<Rightarrow> mat"
  compute_r2 :: "mat \<Rightarrow> mat \<Rightarrow> real"
  compute_mcc :: "mat \<Rightarrow> mat \<Rightarrow> string \<Rightarrow> real"

section \<open>The class SSA\<close>

text \<open>
  The fields of the object, in the order in which the constructor assigns them. The two
  buffers of the base distribution are constants (a zero mean and an identity
  covariance of size \<open>s_dim\<close>) and are folded into \<open>base_dist_log_prob\<close>;
  \<^verbatim>\<open>val_r2\<close> exists only after the first validation step. The methods \<^verbatim>\<open>forward\<close>,
  \<^verbatim>\<open>reparameterize\<close>, \<^verbatim>\<open>sample\<close> and \<^verbatim>\<open>reconstruct\<close> take no part in the steps and
  are not modelled.
\<close>

record 'p SSA =
  c_dim :: nat
  s_dim :: nat
  z_dim :: nat
  input_dim :: nat
  lr :: real
  nclass :: nat
  beta :: real
  gamma :: real
  sigma :: real
  correlation :: string
  decoder_dist :: string
  embedding_dim :: nat
  optimizer :: string
  scheduler :: "string option"
  lr_factor :: real
  lr_patience :: nat
  best_r2 :: real
  best_mcc :: real
  best_sum :: real
  best_sum_mcc :: real
  best_sum_r2 :: real
  r2_at_best_mcc :: real
  mcc_at_best_r2 :: real
  hz_to_z :: bool
  embeddings :: mat
  net :: "mat \<Rightarrow> mat \<times> mat \<times> mat \<times> mat"
  spline_list :: "'p list"
  val_r2 :: "real option"

record init_args =
  a_input_dim :: nat
  a_c_dim :: nat
  a_s_dim :: nat
  a_nclass :: nat
  a_n_flow_layers :: nat
  a_optimizer :: string
  a_embedding_dim :: nat
  a_hidden_dim :: nat
  a_bound :: real
  a_count_bins :: nat
  a_order :: string
  a_lr :: real
  a_beta :: real
  a_gamma :: real
  a_sigma :: real
  a_vae_slope :: real
  a_use_warm_start :: bool
  a_spline_pth :: "string option"
  a_decoder_dist :: string
  a_correlation :: string
  a_encoder_n_layers :: nat
  a_decoder_n_layers :: nat
  a_scheduler :: "string option"
  a_lr_factor :: real
  a_lr_patience :: nat
  a_hz_to_z :: bool

text \<open>A batch: the dictionary with the entries \<^verbatim>\<open>x\<close>, \<^verbatim>\<open>c\<close> (one domain label
  per row) and \<^verbatim>\<open>y\<close>.\<close>

record batch =
  batch_x :: mat
  batch_c :: "int list"
  batch_y :: mat

subsection \<open>Construction\<close>

text \<open>\<^verbatim>\<open>spline.load_state_dict(sd)\<close>: the module takes over the loaded state when
  its keys and shapes fit, and raises otherwise.\<close>

definition load_state_dict :: "'p components \<Rightarrow> 'p \<Rightarrow> 'p \<Rightarrow> error + 'p" where
  "load_state_dict ext spline sd =
     (if state_dict_fits ext spline sd then Inr sd else Inl RuntimeError)"

text \<open>The loop over \<^verbatim>\<open>range(self.nclass)\<close> that fills \<^verbatim>\<open>spline_list\<close>.\<close>

fun spline_loop :: "'p components \<Rightarrow> init_args \<Rightarrow> nat list \<Rightarrow> error + 'p list" where
  "spline_loop ext a [] = Inr []"
| "spline_loop ext a (i # rest) =
     (let spline = NormalizingFlow_new ext
            \<lparr>fa_input_dim = a_s_dim a, fa_n_layers = a_n_flow_layers a, fa_bound = a_bound a,
             fa_count_bins = a_count_bins a, fa_order = a_order a\<rparr> i
      in case (if a_use_warm_start a
               then (case torch_load ext (a_spline_pth a) of
                       Inl e \<Rightarrow> Inl e
                     | Inr sd \<Rightarrow> load_state_dict ext spline sd)
               else Inr spline) of
           Inl e \<Rightarrow> Inl e
         | Inr spline' \<Rightarrow>
             (case spline_loop ext a rest of
                Inl e \<Rightarrow> Inl e
              | Inr others \<Rightarrow> Inr (spline' # others)))"

definition SSA_init :: "'p components \<Rightarrow> init_args \<Rightarrow> error + 'p SSA" where
  "SSA_init ext a =
     (case spline_loop ext a [0..<a_nclass a] of
        Inl e \<Rightarrow> Inl e
      | Inr sl \<Rightarrow> Inr
          \<lparr>c_dim = a_c_dim a,
           s_dim = a_s_dim a,
           z_dim = a_c_dim a + a_s_dim a,
           input_dim = a_input_dim a,
           lr = a_lr a,
           nclass = a_nclass a,
           beta = a_beta a,
           gamma = a_gamma a,
           sigma = a_sigma a,
           correlation = a_correlation a,
           decoder_dist = a_decoder_dist a,
           embedding_dim = a_embedding_dim a,
           optimizer = a_optimizer a,
           scheduler = a_scheduler a,
           lr_factor = a_lr_factor a,
           lr_patience = a_lr_patience a,
           best_r2 = 0,
           best_mcc = 0,
           best_sum = 0,
           best_sum_mcc = 0,
           best_sum_r2 = 0,
           r2_at_best_mcc = 0,
           mcc_at_best_r2 = 0,
           hz_to_z = a_hz_to_z a,
           embeddings = (if a_embedding_dim a > 0
                         then Embedding_new ext (a_nclass a) (a_embedding_dim a) else []),
           net = BetaVAE_MLP_new ext
             \<lparr>na_input_dim = a_input_dim a + a_embedding_dim a,
              na_output_dim = a_input_dim a,
              na_z_dim = a_c_dim a + a_s_dim a,
              na_slope = a_vae_slope a,
              na_encoder_n_layers = a_encoder_n_layers a,
              na_decoder_n_layers = a_decoder_n_layers a,
              na_hidden_dim = a_hidden_dim a\<rparr>,
           spline_list = sl,
           val_r2 = None\<rparr>)"

subsection \<open>The reconstruction term\<close>

definition reconstruction_loss :: "mat \<Rightarrow> mat \<Rightarrow> string \<Rightarrow> error + real" where
  "reconstruction_loss x x_recon distribution =
     (let batch_size = length x in
      if batch_size = 0 then Inl AssertionError
      else if distribution = ''bernoulli'' then
        (case binary_cross_entropy_with_logits_sum x_recon x of
           Inl e \<Rightarrow> Inl e
         | Inr v \<Rightarrow> Inr (v / real batch_size))
      else if distribution = ''gaussian'' then
        (case mse_loss_sum x_recon x of
           Inl e \<Rightarrow> Inl e
         | Inr v \<Rightarrow> Inr (v / real batch_size))
      else if distribution = ''sigmoid_gaussian'' then
        (case mse_loss_sum (map (map sigmoid) x_recon) x of
           Inl e \<Rightarrow> Inl e
         | Inr v \<Rightarrow> Inr (v / real batch_size))
      else Inl UnboundLocalError)"

subsection \<open>The loss of one step\<close>

text \<open>
  \<^verbatim>\<open>x = torch.cat([x, self.embeddings(c.squeeze().long())], dim=1)\<close> when the embedding
  is enabled. The lookup raises on a label outside the table; \<^verbatim>\<open>squeeze\<close> turns a single
  label into a scalar, whose embedding has one dimension and cannot be concatenated
  to the two-dimensional \<^verbatim>\<open>x\<close>; and the row counts must agree.
\<close>

definition embed_input :: "'p SSA \<Rightarrow> mat \<Rightarrow> int list \<Rightarrow> error + mat" where
  "embed_input m x c =
     (if embedding_dim m > 0 then
        (if \<exists>l\<in>set c. l < 0 \<or> int (length (embeddings m)) \<le> l then Inl IndexError
         else if length c = 1 \<or> length c \<noteq> length x then Inl RuntimeError
         else Inr (map2 (@) x (map (\<lambda>l. embeddings m ! nat l) c)))
      else Inr x)"

text \<open>
  The nonstationary branch (lines 169 to 182): every flow of the list is applied to the
  residuals of the whole batch, the outputs are stacked, multiplied by the one-hot
  mask of the labels and summed over the class axis. \<^verbatim>\<open>F.one_hot\<close> raises when there is
  no class or a label is outside \<open>[0, nclass)\<close>; indexing the module list raises beyond
  its length; the products broadcast the mask against the stacked outputs along the
  batch dimension. The arguments are \<open>nclass\<close>, \<open>s_dim\<close> and the forward maps of
  \<^verbatim>\<open>spline_list\<close>; the entries are of any number type.
\<close>

definition flow_select ::
  "nat \<Rightarrow> nat \<Rightarrow> ('a list list \<Rightarrow> 'a list list \<times> 'a list) list \<Rightarrow> int list \<Rightarrow>
     'a :: {monoid_add, times, one} list list \<Rightarrow> nat \<Rightarrow> error + ('a list list \<times> 'a list)" where
  "flow_select n_class sd flows c residuals batch_size =
     (if n_class = 0 \<or> (\<exists>l\<in>set c. l < 0 \<or> int n_class \<le> l) then Inl RuntimeError
      else if length flows < n_class then Inl IndexError
      else
        let one_hot = map (one_hot_row n_class) c;
            outs = map (\<lambda>k. (flows ! k) residuals) [0..<n_class];
            es = stack_axis1 (map fst outs);
            logabsdet = stack_axis1 (map snd outs);
            mask = one_hot
        in case broadcast_dim (length es) (length mask) of
             None \<Rightarrow> Inl RuntimeError
           | Some r \<Rightarrow>
               let es_sel = map sum_axis
                     (map2 (\<lambda>r mr. map2 (\<lambda>v w. map (\<lambda>x. x * w) v) r mr)
                        (expand r es) (expand r mask))
               in case broadcast_dim (length logabsdet) (length mask) of
                    None \<Rightarrow> Inl RuntimeError
                  | Some r' \<Rightarrow>
                      let logabsdet_sel = map sum_list
                            (map2 (\<lambda>r mr. map2 (*) r mr) (expand r' logabsdet) (expand r' mask))
                      in case reshape2 batch_size sd es_sel of
                           Inl e \<Rightarrow> Inl e
                         | Inr es_r \<Rightarrow> Inr (es_r, logabsdet_sel))"

text \<open>
  The reference of the specification for the selection: a loop over the rows, where
  each row takes the transformed value and the log-determinant that the flow of its
  own label produces on that row.
\<close>

definition gather_select ::
  "('a list list \<Rightarrow> 'a list list \<times> 'a list) list \<Rightarrow> int list \<Rightarrow> 'a list list \<Rightarrow>
     'a list list \<times> 'a list" where
  "gather_select flows c residuals =
     (map (\<lambda>i. fst ((flows ! nat (c ! i)) residuals) ! i) [0..<length residuals],
      map (\<lambda>i. snd ((flows ! nat (c ! i)) residuals) ! i) [0..<length residuals])"

text \<open>
  The content KLD of lines 157 to 164 and the style KLD of lines 166, 167 and 183 to
  186, the latter from the selected flow outputs. Both start from \<^verbatim>\<open>log_qz\<close>, which the
  source computes once, and are written for tensors with the row count of the batch.
\<close>

definition content_kld :: "nat \<Rightarrow> mat \<Rightarrow> mat \<Rightarrow> mat \<Rightarrow> real" where
  "content_kld cd mus logvars zs =
     (let log_qz = Normal_log_prob mus (map (map (\<lambda>v. exp (v / 2))) logvars) zs;
          log_pz_content = map sum_list
            (Normal_log_prob (zeros_like (cols_to cd mus))
               (ones_like (cols_to cd logvars)) (cols_to cd zs));
          log_qz_content = map sum_list (cols_to cd log_qz)
      in mean (map2 (-) log_qz_content log_pz_content))"

definition style_kld :: "nat \<Rightarrow> nat \<Rightarrow> mat \<Rightarrow> mat \<Rightarrow> mat \<Rightarrow> mat \<Rightarrow> vec \<Rightarrow> real" where
  "style_kld cd sd mus logvars zs es logabsdet =
     (let log_qz = Normal_log_prob mus (map (map (\<lambda>v. exp (v / 2))) logvars) zs;
          log_qz_style = cols_from cd log_qz;
          sum_log_abs_det_jacobians = logabsdet;
          log_pz_style = map2 (+) (map (base_dist_log_prob sd) es) sum_log_abs_det_jacobians
      in mean (map2 (-) (map sum_list log_qz_style) log_pz_style))"

text \<open>
  The body shared by \<^verbatim>\<open>training_step\<close> (lines 155 to 188) and \<^verbatim>\<open>validation_step\<close>
  (lines 203 to 239), which repeat it word for word. It returns the loss and its three
  components.
\<close>

definition elbo_loss ::
  "'p components \<Rightarrow> 'p SSA \<Rightarrow> mat \<Rightarrow> int list \<Rightarrow> mat \<times> mat \<times> mat \<times> mat
     \<Rightarrow> error + (real \<times> real \<times> real \<times> real)" where
  "elbo_loss ext m x c out =
     (case out of (x_recon, mus, logvars, zs) \<Rightarrow>
       (case reconstruction_loss x x_recon (decoder_dist m) of
          Inl e \<Rightarrow> Inl e
        | Inr recon_loss \<Rightarrow>
            (case flow_select (nclass m) (s_dim m)
                    (map (NormalizingFlow_forward ext) (spline_list m)) c
                    (cols_from (c_dim m) zs) (length x) of
               Inl e \<Rightarrow> Inl e
             | Inr (es, logabsdet) \<Rightarrow>
                 let kc = content_kld (c_dim m) mus logvars zs;
                     ks = style_kld (c_dim m) (s_dim m) mus logvars zs es logabsdet;
                     loss = recon_loss + beta m * kc + gamma m * ks
                 in Inr (loss, recon_loss, kc, ks))))"

text \<open>\<^verbatim>\<open>self.log\<close> appends a named scalar to the log of the step.\<close>

type_synonym log = "(string \<times> real) list"

definition training_step :: "'p components \<Rightarrow> 'p SSA \<Rightarrow> batch \<Rightarrow> error + (real \<times> log)" where
  "training_step ext m b =
     (case embed_input m (batch_x b) (batch_c b) of
        Inl e \<Rightarrow> Inl e
      | Inr x \<Rightarrow>
          (case elbo_loss ext m x (batch_c b) (net m x) of
             Inl e \<Rightarrow> Inl e
           | Inr (loss, recon_loss, kld_content, kld_style) \<Rightarrow>
               Inr (loss,
                    [(''train_elbo_loss'', loss),
                     (''train_recon_loss'', recon_loss),
                     (''train_kld_content'', kld_content),
                     (''train_kld_style'', kld_style)])))"

subsection \<open>Validation: metrics and running bests\<close>

text \<open>The regression direction chosen by \<^verbatim>\<open>hz_to_z\<close> (lines 242 to 245).\<close>

definition step_r2 :: "'p components \<Rightarrow> 'p SSA \<Rightarrow> mat \<Rightarrow> mat \<Rightarrow> real" where
  "step_r2 ext m mus y =
     (if \<not> hz_to_z m then compute_r2 ext (cols_to (c_dim m) mus) (cols_to (c_dim m) y)
      else compute_r2 ext (cols_to (c_dim m) y) (cols_to (c_dim m) mus))"

definition step_mcc :: "'p components \<Rightarrow> 'p SSA \<Rightarrow> mat \<Rightarrow> mat \<Rightarrow> real" where
  "step_mcc ext m mus y =
     (let zt_recon = transpose (cols_from (c_dim m) mus);
          zt_true = transpose (cols_from (c_dim m) y)
      in compute_mcc ext zt_recon zt_true (correlation m))"

text \<open>The three updates of lines 258 to 275, with the values they log.\<close>

definition update_best :: "real \<Rightarrow> real \<Rightarrow> 'p SSA \<Rightarrow> 'p SSA \<times> log" where
  "update_best r2 mcc m =
     (let m1 = (if r2 \<ge> best_r2 m then m\<lparr>best_r2 := r2, mcc_at_best_r2 := mcc\<rparr> else m);
          m2 = (if mcc \<ge> best_mcc m1 then m1\<lparr>best_mcc := mcc, r2_at_best_mcc := r2\<rparr> else m1);
          m3 = (if mcc + r2 \<ge> best_sum m2
                then m2\<lparr>best_sum := mcc + r2, best_sum_mcc := mcc, best_sum_r2 := r2\<rparr>
                else m2)
      in (m3,
          [(''best_r2'', best_r2 m1),
           (''mcc_at_best_r2'', mcc_at_best_r2 m1),
           (''best_mcc'', best_mcc m2),
           (''r2_at_best_mcc'', r2_at_best_mcc m2),
           (''best_sum_mcc'', best_sum_mcc m3),
           (''best_sum_r2'', best_sum_r2 m3)]))"

definition validation_step ::
  "'p components \<Rightarrow> 'p SSA \<Rightarrow> batch \<Rightarrow> error + (real \<times> log \<times> 'p SSA)" where
  "validation_step ext m b =
     (case embed_input m (batch_x b) (batch_c b) of
        Inl e \<Rightarrow> Inl e
      | Inr x \<Rightarrow>
          (case net m x of (x_recon, mus, logvars, zs) \<Rightarrow>
            (case elbo_loss ext m x (batch_c b) (x_recon, mus, logvars, zs) of
               Inl e \<Rightarrow> Inl e
             | Inr (loss, recon_loss, kld_content, kld_style) \<Rightarrow>
                 let r2 = step_r2 ext m mus (batch_y b);
                     mcc = step_mcc ext m mus (batch_y b);
                     (m', best_log) = update_best r2 mcc m
                 in Inr (loss,
                         [(''val_mcc'', mcc),
                          (''val_r2'', r2),
                          (''val_elbo_loss'', loss),
                          (''val_recon_loss'', recon_loss),
                          (''val_kld_content'', kld_content),
                          (''val_kld_style'', kld_style)] @ best_log,
                         m'\<lparr>val_r2 := Some r2\<rparr>))))"

text \<open>A run of validation steps: the object is threaded through, and the first
  error ends the run.\<close>

fun validation_steps :: "'p components \<Rightarrow> 'p SSA \<Rightarrow> batch list \<Rightarrow> error + 'p SSA" where
  "validation_steps ext m [] = Inr m"
| "validation_steps ext m (b # bs) =
     (case validation_step ext m b of
        Inl e \<Rightarrow> Inl e
      | Inr (loss, lg, m') \<Rightarrow> validation_steps ext m' bs)"

subsection \<open>The optimizer\<close>

text \<open>The optimizer objects, by their hyperparameters; the list of trainable
  parameters they receive is left out.\<close>

datatype optim = AdamW real "real \<times> real" real | RMSprop real

definition configure_optimizers :: "'p SSA \<Rightarrow> error + (optim list \<times> unit list)" where
  "configure_optimizers m =
     (if lower (optimizer m) = ''adam'' then
        Inr ([AdamW (lr m) (9 / 10, 999 / 1000) (1 / 10000)], [])
      else if lower (optimizer m) = ''rmsprop'' then
        Inr ([RMSprop (lr m)], [])
      else Inl NotImplementedError)"

section \<open>A small instance\<close>

text \<open>
  An instance on which the theorems below are evaluated. The flow with state \<open>p\<close>
  scales every entry by \<open>p + 1\<close>, so its log-determinant on a row of width \<open>w\<close> is
  \<open>w * ln (p + 1)\<close>. The encoder reconstructs its input and returns zero means,
  log-variances and samples. The two metric routines, which are not part of the module,
  return the leading entry of the ground truth they are given, so that a batch fixes
  the scores of its step. The arguments of the constructor are the defaults of the
  source where it has them.
\<close>

definition demo_ext :: "nat components" where
  "demo_ext =
     \<lparr>NormalizingFlow_new = (\<lambda>_ i. i),
      NormalizingFlow_forward =
        (\<lambda>p r. (map (map (\<lambda>v. real (p + 1) * v)) r,
                 map (\<lambda>row. real (length row) * ln (real (p + 1))) r)),
      state_dict_fits = (\<lambda>_ _. True),
      torch_load = (\<lambda>pth. case pth of None \<Rightarrow> Inl FileNotFoundError | Some _ \<Rightarrow> Inr 5),
      BetaVAE_MLP_new =
        (\<lambda>a x. (x, map (\<lambda>_. replicate (na_z_dim a) 0) x,
                 map (\<lambda>_. replicate (na_z_dim a) 0) x,
                 map (\<lambda>_. replicate (na_z_dim a) 0) x)),
      Embedding_new = (\<lambda>n d. replicate n (replicate d 0)),
      compute_r2 = (\<lambda>a b. hd (hd a)),
      compute_mcc = (\<lambda>a b _. hd (hd b))\<rparr>"

definition demo_args :: init_args where
  "demo_args =
     \<lparr>a_input_dim = 1, a_c_dim = 1, a_s_dim = 1, a_nclass = 2, a_n_flow_layers = 1,
      a_optimizer = ''adam'', a_embedding_dim = 0, a_hidden_dim = 128, a_bound = 5,
      a_count_bins = 8, a_order = ''linear'', a_lr = 1 / 10000, a_beta = 25 / 10000,
      a_gamma = 1 / 1000, a_sigma = 1 / 1000000, a_vae_slope = 2 / 10,
      a_use_warm_start = False, a_spline_pth = None, a_decoder_dist = ''gaussian'',
      a_correlation = ''Pearson'', a_encoder_n_layers = 3, a_decoder_n_layers = 1,
      a_scheduler = None, a_lr_factor = 1 / 2, a_lr_patience = 10, a_hz_to_z = True\<rparr>"

definition demo_net :: "mat \<Rightarrow> mat \<times> mat \<times> mat \<times> mat" where
  "demo_net = BetaVAE_MLP_new demo_ext
     \<lparr>na_input_dim = 1, na_output_dim = 1, na_z_dim = 2, na_slope = 2 / 10,
      na_encoder_n_layers = 3, na_decoder_n_layers = 1, na_hidden_dim = 128\<rparr>"

text \<open>The object that the constructor returns on \<open>demo_args\<close>.\<close>

definition demo_m :: "nat SSA" where
  "demo_m =
     \<lparr>c_dim = 1, s_dim = 1, z_dim = 2, input_dim = 1, lr = 1 / 10000, nclass = 2,
      beta = 25 / 10000, gamma = 1 / 1000, sigma = 1 / 1000000,
      correlation = ''Pearson'', decoder_dist = ''gaussian'', embedding_dim = 0,
      optimizer = ''adam'', scheduler = None, lr_factor = 1 / 2, lr_patience = 10,
      best_r2 = 0, best_mcc = 0, best_sum = 0, best_sum_mcc = 0, best_sum_r2 = 0,
      r2_at_best_mcc = 0, mcc_at_best_r2 = 0, hz_to_z = True, embeddings = [],
      net = demo_net, spline_list = [0, 1], val_r2 = None\<rparr>"

text \<open>One-row batches with domain label \<open>l\<close> whose ground truth makes the step score
  \<open>r2 = r\<close> and \<open>mcc = q\<close> on the instance.\<close>

definition demo_batch :: "int \<Rightarrow> real \<Rightarrow> real \<Rightarrow> batch" where
  "demo_batch l r q = \<lparr>batch_x = [[0]], batch_c = [l], batch_y = [[r, q]]\<rparr>"

text \<open>The instance with given running bests, after a step that scored \<open>r2 = v\<close>.\<close>

definition demo_after ::
  "real \<Rightarrow> real \<Rightarrow> real \<Rightarrow> real \<Rightarrow> real \<Rightarrow> real \<Rightarrow> real \<Rightarrow> real \<Rightarrow> nat SSA" where
  "demo_after br mbr bm rbm bs bsm bsr v =
     demo_m\<lparr>best_r2 := br, mcc_at_best_r2 := mbr, best_mcc := bm, r2_at_best_mcc := rbm,
            best_sum := bs, best_sum_mcc := bsm, best_sum_r2 := bsr, val_r2 := Some v\<rparr>"

text \<open>
  Two flow lists over floating point values, each for \<open>nclass = 2\<close> and \<open>s_dim = 1\<close>.
  In both the first flow is the identity. The second flow of \<open>demo_fp_flows\<close> doubles
  every entry; the second flow of \<open>demo_fp_degenerate\<close> has diverged and returns NaN
  values with an infinite log-determinant.
\<close>

definition demo_fp_flows :: "(fval list list \<Rightarrow> fval list list \<times> fval list) list" where
  "demo_fp_flows =
     [\<lambda>r. (r, map (\<lambda>_. Fin 0) r),
      \<lambda>r. (map (map (\<lambda>v. Fin 2 * v)) r, map (\<lambda>row. Fin (real (length row) * ln 2)) r)]"

definition demo_fp_degenerate :: "(fval list list \<Rightarrow> fval list list \<times> fval list) list" where
  "demo_fp_degenerate =
     [\<lambda>r. (r, map (\<lambda>_. Fin 0) r),
      \<lambda>r. (map (map (\<lambda>_. NaN)) r, map (\<lambda>_. PInf) r)]"

text \<open>
  The instance with another encoder: it reconstructs 2 (against the input 0 of
  \<open>demo_batch\<close>), and its content column has mean 1, log-variance 0 and sample 3.
  On it the three components of the loss are 4, 5 / 2 and \<open>- ln 2\<close> for the label 1.
\<close>

definition demo_m2 :: "nat SSA" where
  "demo_m2 = demo_m\<lparr>net := \<lambda>x. ([[2]], [[1, 0]], [[0, 0]], [[3, 0]])\<rparr>"

section \<open>Evaluating the instance\<close>

text \<open>The instance is the object that the constructor builds, and its steps are
  computed once here for the examples that follow.\<close>

lemma upt2: "[0..<2] = [0, Suc 0]"
  by (simp add: upt_rec)

lemma demo_init: "SSA_init demo_ext demo_args = Inr demo_m"
  by (simp add: SSA_init_def demo_args_def demo_m_def upt2 demo_ext_def demo_net_def numeral_2_eq_2)

lemma demo_net_one: "demo_net [[v]] = ([[v]], [[0, 0]], [[0, 0]], [[0, 0]])"
  by (simp add: demo_net_def demo_ext_def numeral_2_eq_2)

lemma demo_flow_select:
  assumes "l = 0 \<or> l = 1"
  shows "flow_select 2 (Suc 0)
           [NormalizingFlow_forward demo_ext 0, NormalizingFlow_forward demo_ext (Suc 0)]
           [l] [[0]] (Suc 0) = Inr ([[0]], [if l = 0 then 0 else ln 2])"
  using assms
  by (auto simp add: flow_select_def demo_ext_def one_hot_row_def upt2
      stack_axis1_def sum_axis_def reshape2_def Let_def broadcast_dim_def expand_def)

lemma demo_recon: "reconstruction_loss [[0]] [[0]] ''gaussian'' = Inr 0"
  by (simp add: reconstruction_loss_def mse_loss_sum_def broadcast_tensors_def
      broadcast_dim_def width_def expand_def)

lemma demo_elbo:
  assumes "c_dim m = 1" "s_dim m = 1" "nclass m = 2" "spline_list m = [0, 1]"
    "decoder_dist m = ''gaussian''" "l = 0 \<or> l = 1"
  shows "elbo_loss demo_ext m [[0]] [l] ([[0]], [[0, 0]], [[0, 0]], [[z, 0]]) =
           Inr (gamma m * (if l = 0 then 0 else - ln 2), 0, 0, if l = 0 then 0 else - ln 2)"
  using assms(6)
  by (auto simp add: elbo_loss_def demo_recon Let_def assms(1-5) content_kld_def style_kld_def
      cols_to_def cols_from_def Normal_log_prob_def Normal_log_prob1_def zeros_like_def
      ones_like_def mean_def demo_flow_select base_dist_log_prob_def ln_sqrt)

lemma demo_validation_step:
  assumes "c_dim m = 1" "s_dim m = 1" "nclass m = 2" "spline_list m = [0, 1]"
    "decoder_dist m = ''gaussian''" "l = 0 \<or> l = 1" "net m = demo_net" "embedding_dim m = 0"
  shows "validation_step demo_ext m (demo_batch l r q) =
           Inr (gamma m * (if l = 0 then 0 else - ln 2),
                [(''val_mcc'', q),
                 (''val_r2'', if hz_to_z m then r else 0),
                 (''val_elbo_loss'', gamma m * (if l = 0 then 0 else - ln 2)),
                 (''val_recon_loss'', 0),
                 (''val_kld_content'', 0),
                 (''val_kld_style'', if l = 0 then 0 else - ln 2)] @
                snd (update_best (if hz_to_z m then r else 0) q m),
                (fst (update_best (if hz_to_z m then r else 0) q m))
                  \<lparr>val_r2 := Some (if hz_to_z m then r else 0)\<rparr>)"
proof -
  have r2: "step_r2 demo_ext m [[0, 0]] [[r, q]] = (if hz_to_z m then r else 0)"
    by (simp add: step_r2_def demo_ext_def cols_to_def assms(1))
  have mcc: "step_mcc demo_ext m [[0, 0]] [[r, q]] = q"
    by (simp add: step_mcc_def demo_ext_def cols_from_def assms(1) Let_def)
  show ?thesis
    by (simp add: validation_step_def demo_batch_def embed_input_def assms(7,8) demo_net_one
        demo_elbo [OF assms(1-6)] r2 mcc Let_def split: prod.splits)
qed

lemma demo_cfg:
  "c_dim demo_m = 1" "s_dim demo_m = 1" "nclass demo_m = 2" "spline_list demo_m = [0, 1]"
  "decoder_dist demo_m = ''gaussian''" "net demo_m = demo_net" "embedding_dim demo_m = 0"
  "hz_to_z demo_m" "gamma demo_m = 1 / 1000" "beta demo_m = 25 / 10000"
  by (simp_all add: demo_m_def)

lemma demo_after_cfg:
  "c_dim (demo_after br mbr bm rbm bs bsm bsr v) = 1"
  "s_dim (demo_after br mbr bm rbm bs bsm bsr v) = 1"
  "nclass (demo_after br mbr bm rbm bs bsm bsr v) = 2"
  "spline_list (demo_after br mbr bm rbm bs bsm bsr v) = [0, 1]"
  "decoder_dist (demo_after br mbr bm rbm bs bsm bsr v) = ''gaussian''"
  "net (demo_after br mbr bm rbm bs bsm bsr v) = demo_net"
  "embedding_dim (demo_after br mbr bm rbm bs bsm bsr v) = 0"
  "hz_to_z (demo_after br mbr bm rbm bs bsm bsr v)"
  by (simp_all add: demo_m_def demo_after_def)

lemma demo_update_fresh:
  "(fst (update_best r q demo_m))\<lparr>val_r2 := Some r\<rparr> =
     demo_after (if 0 \<le> r then r else 0) (if 0 \<le> r then q else 0)
       (if 0 \<le> q then q else 0) (if 0 \<le> q then r else 0)
       (if 0 \<le> q + r then q + r else 0) (if 0 \<le> q + r then q else 0)
       (if 0 \<le> q + r then r else 0) r"
  by (simp add: update_best_def Let_def demo_after_def demo_m_def)

lemma demo_update_after:
  "(fst (update_best r q (demo_after br mbr bm rbm bs bsm bsr v)))\<lparr>val_r2 := Some r\<rparr> =
     demo_after (if br \<le> r then r else br) (if br \<le> r then q else mbr)
       (if bm \<le> q then q else bm) (if bm \<le> q then r else rbm)
       (if bs \<le> q + r then q + r else bs) (if bs \<le> q + r then q else bsm)
       (if bs \<le> q + r then r else bsr) r"
  by (simp add: update_best_def Let_def demo_after_def demo_m_def)

lemma demo_step_fresh:
  "validation_step demo_ext demo_m (demo_batch 0 r q) =
      Inr (0, [(''val_mcc'', q), (''val_r2'', r), (''val_elbo_loss'', 0),
               (''val_recon_loss'', 0), (''val_kld_content'', 0), (''val_kld_style'', 0)] @
              snd (update_best r q demo_m),
           (fst (update_best r q demo_m))\<lparr>val_r2 := Some r\<rparr>)"
  using demo_validation_step [of demo_m 0 r q] by (simp add: demo_cfg)

lemma demo_step_after:
  "validation_step demo_ext (demo_after br mbr bm rbm bs bsm bsr v) (demo_batch 0 r q) =
      Inr (0, [(''val_mcc'', q), (''val_r2'', r), (''val_elbo_loss'', 0),
               (''val_recon_loss'', 0), (''val_kld_content'', 0), (''val_kld_style'', 0)] @
              snd (update_best r q (demo_after br mbr bm rbm bs bsm bsr v)),
           (fst (update_best r q (demo_after br mbr bm rbm bs bsm bsr v)))\<lparr>val_r2 := Some r\<rparr>)"
  using demo_validation_step [of "demo_after br mbr bm rbm bs bsm bsr v" 0 r q]
  by (simp add: demo_after_cfg)

lemma demo_steps_one:
  "validation_steps demo_ext demo_m [demo_batch 0 (5 / 10) (9 / 10)] =
     Inr (demo_after (5 / 10) (9 / 10) (9 / 10) (5 / 10) (14 / 10) (9 / 10) (5 / 10) (5 / 10))"
  by (simp add: demo_step_fresh demo_update_fresh)

lemma demo_steps_two:
  "validation_steps demo_ext demo_m
     [demo_batch 0 (5 / 10) (9 / 10), demo_batch 0 (6 / 10) (1 / 10)] =
     Inr (demo_after (6 / 10) (1 / 10) (9 / 10) (5 / 10) (14 / 10) (9 / 10) (5 / 10) (6 / 10))"
  by (simp add: demo_step_fresh demo_update_fresh demo_step_after demo_update_after)

lemma demo_after_sel:
  "best_r2 (demo_after br mbr bm rbm bs bsm bsr v) = br"
  "mcc_at_best_r2 (demo_after br mbr bm rbm bs bsm bsr v) = mbr"
  "best_mcc (demo_after br mbr bm rbm bs bsm bsr v) = bm"
  "r2_at_best_mcc (demo_after br mbr bm rbm bs bsm bsr v) = rbm"
  "best_sum (demo_after br mbr bm rbm bs bsm bsr v) = bs"
  "best_sum_mcc (demo_after br mbr bm rbm bs bsm bsr v) = bsm"
  "best_sum_r2 (demo_after br mbr bm rbm bs bsm bsr v) = bsr"
  "val_r2 (demo_after br mbr bm rbm bs bsm bsr v) = Some v"
  by (simp_all add: demo_after_def)

section \<open>General facts about the steps\<close>

lemma reconstruction_loss_empty: "reconstruction_loss [] xr d = Inl AssertionError"
  by (simp add: reconstruction_loss_def)

lemma embed_input_empty: "embed_input m [] [] = Inr []"
  by (simp add: embed_input_def)

lemma elbo_loss_empty: "elbo_loss ext m [] c out = Inl AssertionError"
  by (simp add: elbo_loss_def reconstruction_loss_empty split: prod.splits)

lemma elbo_loss_parts:
  assumes "elbo_loss ext m x c (x_recon, mus, logvars, zs) = Inr (loss, r, kc, ks)"
  shows "\<exists>es logabsdet.
           reconstruction_loss x x_recon (decoder_dist m) = Inr r \<and>
           flow_select (nclass m) (s_dim m) (map (NormalizingFlow_forward ext) (spline_list m)) c
             (cols_from (c_dim m) zs) (length x) = Inr (es, logabsdet) \<and>
           kc = content_kld (c_dim m) mus logvars zs \<and>
           ks = style_kld (c_dim m) (s_dim m) mus logvars zs es logabsdet \<and>
           loss = r + beta m * kc + gamma m * ks"
  using assms
  by (auto simp: elbo_loss_def Let_def split: sum.splits)

lemma update_best_mono:
  "best_r2 m \<le> best_r2 (fst (update_best r2 mcc m)) \<and>
   best_mcc m \<le> best_mcc (fst (update_best r2 mcc m)) \<and>
   best_sum m \<le> best_sum (fst (update_best r2 mcc m))"
  by (simp add: update_best_def Let_def)

lemma validation_step_state:
  assumes "validation_step ext m b = Inr (loss, lg, m')"
  shows "\<exists>x r kc ks.
           embed_input m (batch_x b) (batch_c b) = Inr x \<and>
           elbo_loss ext m x (batch_c b) (net m x) = Inr (loss, r, kc, ks) \<and>
           m' = (fst (update_best (step_r2 ext m (fst (snd (net m x))) (batch_y b))
                       (step_mcc ext m (fst (snd (net m x))) (batch_y b)) m))
                  \<lparr>val_r2 := Some (step_r2 ext m (fst (snd (net m x))) (batch_y b))\<rparr> \<and>
           lg = [(''val_mcc'', step_mcc ext m (fst (snd (net m x))) (batch_y b)),
                 (''val_r2'', step_r2 ext m (fst (snd (net m x))) (batch_y b)),
                 (''val_elbo_loss'', loss),
                 (''val_recon_loss'', r),
                 (''val_kld_content'', kc),
                 (''val_kld_style'', ks)] @
                snd (update_best (step_r2 ext m (fst (snd (net m x))) (batch_y b))
                       (step_mcc ext m (fst (snd (net m x))) (batch_y b)) m)"
  using assms
  by (auto simp: validation_step_def Let_def split: sum.splits prod.splits)

lemma training_step_parts:
  assumes "training_step ext m b = Inr (loss, lg)"
  shows "\<exists>x r kc ks.
           embed_input m (batch_x b) (batch_c b) = Inr x \<and>
           elbo_loss ext m x (batch_c b) (net m x) = Inr (loss, r, kc, ks) \<and>
           lg = [(''train_elbo_loss'', loss),
                 (''train_recon_loss'', r),
                 (''train_kld_content'', kc),
                 (''train_kld_style'', ks)]"
  using assms
  by (auto simp: training_step_def split: sum.splits prod.splits)

lemma validation_step_mono:
  assumes "validation_step ext m b = Inr (loss, lg, m')"
  shows "best_r2 m \<le> best_r2 m' \<and> best_mcc m \<le> best_mcc m' \<and> best_sum m \<le> best_sum m'"
proof -
  from validation_step_state [OF assms] obtain r2 mcc
    where m': "m' = (fst (update_best r2 mcc m))\<lparr>val_r2 := Some r2\<rparr>" by blast
  show ?thesis using update_best_mono [of m r2 mcc] by (simp add: m')
qed

lemma validation_steps_mono:
  "validation_steps ext m bs = Inr m' \<Longrightarrow>
     best_r2 m \<le> best_r2 m' \<and> best_mcc m \<le> best_mcc m' \<and> best_sum m \<le> best_sum m'"
proof (induction bs arbitrary: m)
  case Nil
  then show ?case by simp
next
  case (Cons b bs)
  from Cons.prems obtain loss lg m1
    where s: "validation_step ext m b = Inr (loss, lg, m1)"
      and r: "validation_steps ext m1 bs = Inr m'"
    by (auto split: sum.splits)
  from validation_step_mono [OF s] Cons.IH [OF r] show ?case by linarith
qed

lemma SSA_init_bests:
  "SSA_init ext a = Inr m0 \<Longrightarrow>
     best_r2 m0 = 0 \<and> best_mcc m0 = 0 \<and> best_sum m0 = 0 \<and> best_sum_mcc m0 = 0 \<and>
     best_sum_r2 m0 = 0 \<and> r2_at_best_mcc m0 = 0 \<and> mcc_at_best_r2 m0 = 0"
  by (auto simp: SSA_init_def split: sum.splits)

section \<open>The combined loss\<close>

text \<open>
  Claim C1. \<^verbatim>\<open>training_step\<close> returns a loss exactly when the embedding, the
  reconstruction term and the selection of the flow outputs do not raise, and then the
  loss is the reconstruction term of \<^verbatim>\<open>reconstruction_loss\<close> plus \<open>beta\<close> times the
  content KLD plus \<open>gamma\<close> times the style KLD, where the two KLD terms are those of
  the encoder output and of the selected flow outputs of this step; the four logged
  values are this loss and these three components. The same holds for
  \<^verbatim>\<open>validation_step\<close>, which logs the two scores and the running bests besides. This
  holds for all weights, in particular for non-negative ones.
\<close>

theorem loss_is_weighted_sum:
  "(training_step ext m b = Inr (loss, lg) \<longleftrightarrow>
      (\<exists>x x_recon mus logvars zs recon es logabsdet.
         embed_input m (batch_x b) (batch_c b) = Inr x \<and>
         net m x = (x_recon, mus, logvars, zs) \<and>
         reconstruction_loss x x_recon (decoder_dist m) = Inr recon \<and>
         flow_select (nclass m) (s_dim m) (map (NormalizingFlow_forward ext) (spline_list m))
           (batch_c b) (cols_from (c_dim m) zs) (length x) = Inr (es, logabsdet) \<and>
         loss = recon + beta m * content_kld (c_dim m) mus logvars zs +
                gamma m * style_kld (c_dim m) (s_dim m) mus logvars zs es logabsdet \<and>
         lg = [(''train_elbo_loss'', loss),
               (''train_recon_loss'', recon),
               (''train_kld_content'', content_kld (c_dim m) mus logvars zs),
               (''train_kld_style'',
                style_kld (c_dim m) (s_dim m) mus logvars zs es logabsdet)])) \<and>
   (validation_step ext m b = Inr (vloss, vlg, m') \<longleftrightarrow>
      (\<exists>x x_recon mus logvars zs recon es logabsdet.
         embed_input m (batch_x b) (batch_c b) = Inr x \<and>
         net m x = (x_recon, mus, logvars, zs) \<and>
         reconstruction_loss x x_recon (decoder_dist m) = Inr recon \<and>
         flow_select (nclass m) (s_dim m) (map (NormalizingFlow_forward ext) (spline_list m))
           (batch_c b) (cols_from (c_dim m) zs) (length x) = Inr (es, logabsdet) \<and>
         vloss = recon + beta m * content_kld (c_dim m) mus logvars zs +
                 gamma m * style_kld (c_dim m) (s_dim m) mus logvars zs es logabsdet \<and>
         vlg = [(''val_mcc'', step_mcc ext m mus (batch_y b)),
                (''val_r2'', step_r2 ext m mus (batch_y b)),
                (''val_elbo_loss'', vloss),
                (''val_recon_loss'', recon),
                (''val_kld_content'', content_kld (c_dim m) mus logvars zs),
                (''val_kld_style'',
                 style_kld (c_dim m) (s_dim m) mus logvars zs es logabsdet)] @
               snd (update_best (step_r2 ext m mus (batch_y b))
                      (step_mcc ext m mus (batch_y b)) m) \<and>
         m' = (fst (update_best (step_r2 ext m mus (batch_y b))
                      (step_mcc ext m mus (batch_y b)) m))
                \<lparr>val_r2 := Some (step_r2 ext m mus (batch_y b))\<rparr>))"
proof (intro conjI)
  show "training_step ext m b = Inr (loss, lg) \<longleftrightarrow>
      (\<exists>x x_recon mus logvars zs recon es logabsdet.
         embed_input m (batch_x b) (batch_c b) = Inr x \<and>
         net m x = (x_recon, mus, logvars, zs) \<and>
         reconstruction_loss x x_recon (decoder_dist m) = Inr recon \<and>
         flow_select (nclass m) (s_dim m) (map (NormalizingFlow_forward ext) (spline_list m))
           (batch_c b) (cols_from (c_dim m) zs) (length x) = Inr (es, logabsdet) \<and>
         loss = recon + beta m * content_kld (c_dim m) mus logvars zs +
                gamma m * style_kld (c_dim m) (s_dim m) mus logvars zs es logabsdet \<and>
         lg = [(''train_elbo_loss'', loss),
               (''train_recon_loss'', recon),
               (''train_kld_content'', content_kld (c_dim m) mus logvars zs),
               (''train_kld_style'',
                style_kld (c_dim m) (s_dim m) mus logvars zs es logabsdet)])"
    unfolding training_step_def elbo_loss_def
    by (auto simp: Let_def split: sum.splits prod.splits)
  show "validation_step ext m b = Inr (vloss, vlg, m') \<longleftrightarrow>
      (\<exists>x x_recon mus logvars zs recon es logabsdet.
         embed_input m (batch_x b) (batch_c b) = Inr x \<and>
         net m x = (x_recon, mus, logvars, zs) \<and>
         reconstruction_loss x x_recon (decoder_dist m) = Inr recon \<and>
         flow_select (nclass m) (s_dim m) (map (NormalizingFlow_forward ext) (spline_list m))
           (batch_c b) (cols_from (c_dim m) zs) (length x) = Inr (es, logabsdet) \<and>
         vloss = recon + beta m * content_kld (c_dim m) mus logvars zs +
                 gamma m * style_kld (c_dim m) (s_dim m) mus logvars zs es logabsdet \<and>
         vlg = [(''val_mcc'', step_mcc ext m mus (batch_y b)),
                (''val_r2'', step_r2 ext m mus (batch_y b)),
                (''val_elbo_loss'', vloss),
                (''val_recon_loss'', recon),
                (''val_kld_content'', content_kld (c_dim m) mus logvars zs),
                (''val_kld_style'',
                 style_kld (c_dim m) (s_dim m) mus logvars zs es logabsdet)] @
               snd (update_best (step_r2 ext m mus (batch_y b))
                      (step_mcc ext m mus (batch_y b)) m) \<and>
         m' = (fst (update_best (step_r2 ext m mus (batch_y b))
                      (step_mcc ext m mus (batch_y b)) m))
                \<lparr>val_r2 := Some (step_r2 ext m mus (batch_y b))\<rparr>)"
    unfolding validation_step_def elbo_loss_def
    by (auto simp: Let_def split: sum.splits prod.splits)
qed

lemma demo_m2_cfg:
  "c_dim demo_m2 = 1" "s_dim demo_m2 = 1" "nclass demo_m2 = 2" "spline_list demo_m2 = [0, 1]"
  "decoder_dist demo_m2 = ''gaussian''" "embedding_dim demo_m2 = 0" "hz_to_z demo_m2"
  "gamma demo_m2 = 1 / 1000" "beta demo_m2 = 25 / 10000" "correlation demo_m2 = ''Pearson''"
  "net demo_m2 x = ([[2]], [[1, 0]], [[0, 0]], [[3, 0]])"
  by (simp_all add: demo_m2_def demo_m_def)

lemma demo_m2_recon: "reconstruction_loss [[0]] [[2]] ''gaussian'' = Inr 4"
  by (simp add: reconstruction_loss_def mse_loss_sum_def broadcast_tensors_def
      broadcast_dim_def width_def expand_def)

lemma demo_m2_content: "content_kld 1 [[1, 0]] [[0, 0]] [[3, 0]] = 5 / 2"
  by (simp add: content_kld_def Let_def cols_to_def Normal_log_prob_def Normal_log_prob1_def
      zeros_like_def ones_like_def mean_def)

lemma demo_m2_style: "style_kld 1 1 [[1, 0]] [[0, 0]] [[3, 0]] [[0]] [ln 2] = - ln 2"
  by (simp add: style_kld_def Let_def cols_from_def Normal_log_prob_def Normal_log_prob1_def
      mean_def base_dist_log_prob_def ln_sqrt)

lemma demo_m2_update:
  "update_best (1 / 2) (9 / 10) demo_m2 =
     (demo_m2\<lparr>best_r2 := 1 / 2, mcc_at_best_r2 := 9 / 10, best_mcc := 9 / 10,
              r2_at_best_mcc := 1 / 2, best_sum := 7 / 5, best_sum_mcc := 9 / 10,
              best_sum_r2 := 1 / 2\<rparr>,
      [(''best_r2'', 1 / 2), (''mcc_at_best_r2'', 9 / 10), (''best_mcc'', 9 / 10),
       (''r2_at_best_mcc'', 1 / 2), (''best_sum_mcc'', 9 / 10), (''best_sum_r2'', 1 / 2)])"
  by (simp add: update_best_def Let_def demo_m2_def demo_m_def)

theorem loss_is_weighted_sum_witness:
  "reconstruction_loss [[0]] [[2]] ''gaussian'' = Inr 4 \<and>
   content_kld 1 [[1, 0]] [[0, 0]] [[3, 0]] = 5 / 2 \<and>
   style_kld 1 1 [[1, 0]] [[0, 0]] [[3, 0]] [[0]] [ln 2] = - ln 2 \<and>
   training_step demo_ext demo_m2 (demo_batch 1 (1 / 2) (9 / 10)) =
     Inr (4 + 25 / 10000 * (5 / 2) + 1 / 1000 * (- ln 2),
          [(''train_elbo_loss'', 4 + 25 / 10000 * (5 / 2) + 1 / 1000 * (- ln 2)),
           (''train_recon_loss'', 4),
           (''train_kld_content'', 5 / 2),
           (''train_kld_style'', - ln 2)]) \<and>
   validation_step demo_ext demo_m2 (demo_batch 1 (1 / 2) (9 / 10)) =
     Inr (4 + 25 / 10000 * (5 / 2) + 1 / 1000 * (- ln 2),
          [(''val_mcc'', 9 / 10), (''val_r2'', 1 / 2),
           (''val_elbo_loss'', 4 + 25 / 10000 * (5 / 2) + 1 / 1000 * (- ln 2)),
           (''val_recon_loss'', 4), (''val_kld_content'', 5 / 2), (''val_kld_style'', - ln 2),
           (''best_r2'', 1 / 2), (''mcc_at_best_r2'', 9 / 10), (''best_mcc'', 9 / 10),
           (''r2_at_best_mcc'', 1 / 2), (''best_sum_mcc'', 9 / 10), (''best_sum_r2'', 1 / 2)],
          demo_m2\<lparr>best_r2 := 1 / 2, mcc_at_best_r2 := 9 / 10, best_mcc := 9 / 10,
                   r2_at_best_mcc := 1 / 2, best_sum := 7 / 5, best_sum_mcc := 9 / 10,
                   best_sum_r2 := 1 / 2, val_r2 := Some (1 / 2)\<rparr>)"
proof -
  let ?b = "demo_batch 1 (1 / 2) (9 / 10)"
  have e: "embed_input demo_m2 (batch_x ?b) (batch_c ?b) = Inr [[0]]"
    by (simp add: embed_input_def demo_m2_cfg demo_batch_def)
  have n: "net demo_m2 [[0]] = ([[2]], [[1, 0]], [[0, 0]], [[3, 0]])"
    by (rule demo_m2_cfg)
  have r: "reconstruction_loss [[0]] [[2]] (decoder_dist demo_m2) = Inr 4"
    by (simp add: demo_m2_cfg demo_m2_recon)
  have f: "flow_select (nclass demo_m2) (s_dim demo_m2)
      (map (NormalizingFlow_forward demo_ext) (spline_list demo_m2)) (batch_c ?b)
      (cols_from (c_dim demo_m2) [[3, 0]]) (length [[0 :: real]]) = Inr ([[0]], [ln 2])"
    using demo_flow_select [of 1]
    by (simp add: demo_m2_cfg demo_batch_def cols_from_def)
  have kc: "content_kld (c_dim demo_m2) [[1, 0]] [[0, 0]] [[3, 0]] = 5 / 2"
    unfolding demo_m2_cfg by (rule demo_m2_content)
  have ks: "style_kld (c_dim demo_m2) (s_dim demo_m2) [[1, 0]] [[0, 0]] [[3, 0]] [[0]] [ln 2] =
      - ln 2"
    unfolding demo_m2_cfg by (rule demo_m2_style)
  have r2: "step_r2 demo_ext demo_m2 [[1, 0]] (batch_y ?b) = 1 / 2"
    by (simp add: step_r2_def demo_ext_def cols_to_def demo_m2_cfg demo_batch_def)
  have mcc: "step_mcc demo_ext demo_m2 [[1, 0]] (batch_y ?b) = 9 / 10"
    by (simp add: step_mcc_def demo_ext_def cols_from_def demo_m2_cfg demo_batch_def Let_def)
  have t: "training_step demo_ext demo_m2 ?b =
     Inr (4 + 25 / 10000 * (5 / 2) + 1 / 1000 * (- ln 2),
          [(''train_elbo_loss'', 4 + 25 / 10000 * (5 / 2) + 1 / 1000 * (- ln 2)),
           (''train_recon_loss'', 4),
           (''train_kld_content'', 5 / 2),
           (''train_kld_style'', - ln 2)])"
    apply (rule iffD2 [OF conjunct1 [OF loss_is_weighted_sum]])
    apply (intro exI conjI)
         apply (rule e)
        apply (rule n)
       apply (rule r)
      apply (rule f)
     apply (simp add: kc ks demo_m2_cfg(8,9))
    apply (simp add: kc ks)
    done
  have v: "validation_step demo_ext demo_m2 ?b =
     Inr (4 + 25 / 10000 * (5 / 2) + 1 / 1000 * (- ln 2),
          [(''val_mcc'', 9 / 10), (''val_r2'', 1 / 2),
           (''val_elbo_loss'', 4 + 25 / 10000 * (5 / 2) + 1 / 1000 * (- ln 2)),
           (''val_recon_loss'', 4), (''val_kld_content'', 5 / 2), (''val_kld_style'', - ln 2),
           (''best_r2'', 1 / 2), (''mcc_at_best_r2'', 9 / 10), (''best_mcc'', 9 / 10),
           (''r2_at_best_mcc'', 1 / 2), (''best_sum_mcc'', 9 / 10), (''best_sum_r2'', 1 / 2)],
          demo_m2\<lparr>best_r2 := 1 / 2, mcc_at_best_r2 := 9 / 10, best_mcc := 9 / 10,
                   r2_at_best_mcc := 1 / 2, best_sum := 7 / 5, best_sum_mcc := 9 / 10,
                   best_sum_r2 := 1 / 2, val_r2 := Some (1 / 2)\<rparr>)"
    apply (rule iffD2 [OF conjunct2 [OF loss_is_weighted_sum]])
    apply (intro exI conjI)
           apply (rule e)
          apply (rule n)
         apply (rule r)
        apply (rule f)
      apply (simp add: kc ks demo_m2_cfg(8,9))
     apply (simp add: kc ks r2 mcc demo_m2_update)
    apply (simp add: r2 mcc demo_m2_update)
    done
  from demo_m2_recon demo_m2_content demo_m2_style t v show ?thesis
    by (intro conjI)
qed

section \<open>Running bests\<close>

text \<open>
  Claim C3, as amended. The constructor sets the seven running-best fields to 0, and
  over every run of validation steps that returns, the three maxima \<open>best_r2\<close>,
  \<open>best_mcc\<close> and \<open>best_sum\<close> do not decrease. The paired values are not maxima:
  they hold the other metric of the step that last reached the optimum.
\<close>

theorem running_best_monotone:
  "(SSA_init ext a = Inr m0 \<longrightarrow>
      best_r2 m0 = 0 \<and> best_mcc m0 = 0 \<and> best_sum m0 = 0 \<and> best_sum_mcc m0 = 0 \<and>
      best_sum_r2 m0 = 0 \<and> r2_at_best_mcc m0 = 0 \<and> mcc_at_best_r2 m0 = 0) \<and>
   (validation_steps ext m bs = Inr m' \<longrightarrow>
      best_r2 m \<le> best_r2 m' \<and> best_mcc m \<le> best_mcc m' \<and> best_sum m \<le> best_sum m')"
  using SSA_init_bests [of ext a m0] validation_steps_mono [of ext m bs m'] by blast

theorem running_best_monotone_witness:
  "SSA_init demo_ext demo_args = Inr demo_m \<and>
   validation_steps demo_ext demo_m
     [demo_batch 0 (5 / 10) (9 / 10), demo_batch 0 (6 / 10) (1 / 10)] =
     Inr (demo_after (6 / 10) (1 / 10) (9 / 10) (5 / 10) (14 / 10) (9 / 10) (5 / 10) (6 / 10)) \<and>
   best_r2 demo_m = 0 \<and> best_mcc demo_m = 0 \<and> best_sum demo_m = 0 \<and>
   best_sum_mcc demo_m = 0 \<and> best_sum_r2 demo_m = 0 \<and> r2_at_best_mcc demo_m = 0 \<and>
   mcc_at_best_r2 demo_m = 0 \<and>
   best_r2 demo_m \<le>
     best_r2 (demo_after (6 / 10) (1 / 10) (9 / 10) (5 / 10) (14 / 10) (9 / 10) (5 / 10) (6 / 10)) \<and>
   best_mcc demo_m \<le>
     best_mcc (demo_after (6 / 10) (1 / 10) (9 / 10) (5 / 10) (14 / 10) (9 / 10) (5 / 10) (6 / 10)) \<and>
   best_sum demo_m \<le>
     best_sum (demo_after (6 / 10) (1 / 10) (9 / 10) (5 / 10) (14 / 10) (9 / 10) (5 / 10) (6 / 10))"
  using running_best_monotone [of demo_ext demo_args demo_m demo_m
      "[demo_batch 0 (5 / 10) (9 / 10), demo_batch 0 (6 / 10) (1 / 10)]"
      "demo_after (6 / 10) (1 / 10) (9 / 10) (5 / 10) (14 / 10) (9 / 10) (5 / 10) (6 / 10)"]
    demo_init demo_steps_two
  by simp

text \<open>
  On the instance, the first step scores \<open>r2 = 0.5, mcc = 0.9\<close> and the second
  \<open>r2 = 0.6, mcc = 0.1\<close>: the second step raises \<open>best_r2\<close> and with it lowers
  \<open>mcc_at_best_r2\<close> from 0.9 to 0.1.
\<close>

theorem paired_value_decreases:
  "SSA_init demo_ext demo_args = Inr demo_m \<and>
   validation_steps demo_ext demo_m [demo_batch 0 (5 / 10) (9 / 10)] =
     Inr (demo_after (5 / 10) (9 / 10) (9 / 10) (5 / 10) (14 / 10) (9 / 10) (5 / 10) (5 / 10)) \<and>
   validation_step demo_ext
     (demo_after (5 / 10) (9 / 10) (9 / 10) (5 / 10) (14 / 10) (9 / 10) (5 / 10) (5 / 10))
     (demo_batch 0 (6 / 10) (1 / 10)) =
     Inr (0,
          [(''val_mcc'', 1 / 10), (''val_r2'', 6 / 10), (''val_elbo_loss'', 0),
           (''val_recon_loss'', 0), (''val_kld_content'', 0), (''val_kld_style'', 0),
           (''best_r2'', 6 / 10), (''mcc_at_best_r2'', 1 / 10), (''best_mcc'', 9 / 10),
           (''r2_at_best_mcc'', 5 / 10), (''best_sum_mcc'', 9 / 10), (''best_sum_r2'', 5 / 10)],
          demo_after (6 / 10) (1 / 10) (9 / 10) (5 / 10) (14 / 10) (9 / 10) (5 / 10) (6 / 10)) \<and>
   mcc_at_best_r2
     (demo_after (6 / 10) (1 / 10) (9 / 10) (5 / 10) (14 / 10) (9 / 10) (5 / 10) (6 / 10)) <
   mcc_at_best_r2
     (demo_after (5 / 10) (9 / 10) (9 / 10) (5 / 10) (14 / 10) (9 / 10) (5 / 10) (5 / 10))"
proof -
  have lg: "snd (update_best (6 / 10) (1 / 10)
       (demo_after (5 / 10) (9 / 10) (9 / 10) (5 / 10) (14 / 10) (9 / 10) (5 / 10) (5 / 10))) =
      [(''best_r2'', 6 / 10), (''mcc_at_best_r2'', 1 / 10), (''best_mcc'', 9 / 10),
       (''r2_at_best_mcc'', 5 / 10), (''best_sum_mcc'', 9 / 10), (''best_sum_r2'', 5 / 10)]"
    by (simp add: update_best_def Let_def demo_after_def demo_m_def)
  have st: "validation_step demo_ext
     (demo_after (5 / 10) (9 / 10) (9 / 10) (5 / 10) (14 / 10) (9 / 10) (5 / 10) (5 / 10))
     (demo_batch 0 (6 / 10) (1 / 10)) =
     Inr (0,
          [(''val_mcc'', 1 / 10), (''val_r2'', 6 / 10), (''val_elbo_loss'', 0),
           (''val_recon_loss'', 0), (''val_kld_content'', 0), (''val_kld_style'', 0),
           (''best_r2'', 6 / 10), (''mcc_at_best_r2'', 1 / 10), (''best_mcc'', 9 / 10),
           (''r2_at_best_mcc'', 5 / 10), (''best_sum_mcc'', 9 / 10), (''best_sum_r2'', 5 / 10)],
          demo_after (6 / 10) (1 / 10) (9 / 10) (5 / 10) (14 / 10) (9 / 10) (5 / 10) (6 / 10))"
    unfolding demo_step_after demo_update_after lg by simp
  have lt: "mcc_at_best_r2
     (demo_after (6 / 10) (1 / 10) (9 / 10) (5 / 10) (14 / 10) (9 / 10) (5 / 10) (6 / 10)) <
   mcc_at_best_r2
     (demo_after (5 / 10) (9 / 10) (9 / 10) (5 / 10) (14 / 10) (9 / 10) (5 / 10) (5 / 10))"
    by (simp add: demo_after_sel)
  from demo_init demo_steps_one st lt show ?thesis by (intro conjI)
qed

text \<open>
  Claim C4. The three comparisons are \<open>\<ge>\<close>: a step whose \<open>r2\<close> is at least
  \<open>best_r2\<close>, in particular equal to it, replaces \<open>best_r2\<close> and sets
  \<open>mcc_at_best_r2\<close> to the \<open>mcc\<close> of the step; likewise for \<open>mcc\<close> against
  \<open>best_mcc\<close>, and for \<open>mcc + r2\<close> against \<open>best_sum\<close>, where both
  \<open>best_sum_mcc\<close> and \<open>best_sum_r2\<close> are overwritten. The scores \<open>r2\<close> and
  \<open>mcc\<close> of the step are the ones it logs.
\<close>

theorem ties_favor_latest:
  assumes "validation_step ext m b = Inr (loss, lg, m')"
    and "map_of lg ''val_r2'' = Some r2"
    and "map_of lg ''val_mcc'' = Some mcc"
  shows "(best_r2 m \<le> r2 \<longrightarrow> best_r2 m' = r2 \<and> mcc_at_best_r2 m' = mcc) \<and>
         (best_mcc m \<le> mcc \<longrightarrow> best_mcc m' = mcc \<and> r2_at_best_mcc m' = r2) \<and>
         (best_sum m \<le> mcc + r2 \<longrightarrow>
            best_sum m' = mcc + r2 \<and> best_sum_mcc m' = mcc \<and> best_sum_r2 m' = r2)"
proof -
  from validation_step_state [OF assms(1)] obtain x r kc ks where
    m': "m' = (fst (update_best (step_r2 ext m (fst (snd (net m x))) (batch_y b))
                       (step_mcc ext m (fst (snd (net m x))) (batch_y b)) m))
                  \<lparr>val_r2 := Some (step_r2 ext m (fst (snd (net m x))) (batch_y b))\<rparr>"
    and lg: "lg = [(''val_mcc'', step_mcc ext m (fst (snd (net m x))) (batch_y b)),
                 (''val_r2'', step_r2 ext m (fst (snd (net m x))) (batch_y b)),
                 (''val_elbo_loss'', loss),
                 (''val_recon_loss'', r),
                 (''val_kld_content'', kc),
                 (''val_kld_style'', ks)] @
                snd (update_best (step_r2 ext m (fst (snd (net m x))) (batch_y b))
                       (step_mcc ext m (fst (snd (net m x))) (batch_y b)) m)"
    by blast
  from assms(2,3) have r2: "step_r2 ext m (fst (snd (net m x))) (batch_y b) = r2"
    and mcc: "step_mcc ext m (fst (snd (net m x))) (batch_y b) = mcc"
    by (simp_all add: lg)
  show ?thesis
    unfolding m' r2 mcc by (simp add: update_best_def Let_def)
qed

text \<open>A tie on the instance: \<open>best_r2\<close> is 0.5 with \<open>mcc_at_best_r2 = 0.2\<close>, and a
  step that scores \<open>r2 = 0.5, mcc = 0.9\<close> sets \<open>mcc_at_best_r2\<close> to 0.9.\<close>

lemma demo_step_tie:
  "validation_step demo_ext
     (demo_after (5 / 10) (2 / 10) (2 / 10) (5 / 10) (7 / 10) (2 / 10) (5 / 10) (5 / 10))
     (demo_batch 0 (5 / 10) (9 / 10)) =
     Inr (0,
          [(''val_mcc'', 9 / 10), (''val_r2'', 5 / 10), (''val_elbo_loss'', 0),
           (''val_recon_loss'', 0), (''val_kld_content'', 0), (''val_kld_style'', 0),
           (''best_r2'', 5 / 10), (''mcc_at_best_r2'', 9 / 10), (''best_mcc'', 9 / 10),
           (''r2_at_best_mcc'', 5 / 10), (''best_sum_mcc'', 9 / 10), (''best_sum_r2'', 5 / 10)],
          demo_after (5 / 10) (9 / 10) (9 / 10) (5 / 10) (14 / 10) (9 / 10) (5 / 10) (5 / 10))"
proof -
  have lg: "snd (update_best (5 / 10) (9 / 10)
       (demo_after (5 / 10) (2 / 10) (2 / 10) (5 / 10) (7 / 10) (2 / 10) (5 / 10) (5 / 10))) =
      [(''best_r2'', 5 / 10), (''mcc_at_best_r2'', 9 / 10), (''best_mcc'', 9 / 10),
       (''r2_at_best_mcc'', 5 / 10), (''best_sum_mcc'', 9 / 10), (''best_sum_r2'', 5 / 10)]"
    by (simp add: update_best_def Let_def demo_after_def demo_m_def)
  show ?thesis
    unfolding demo_step_after demo_update_after lg by simp
qed

theorem ties_favor_latest_witness:
  "validation_step demo_ext
     (demo_after (5 / 10) (2 / 10) (2 / 10) (5 / 10) (7 / 10) (2 / 10) (5 / 10) (5 / 10))
     (demo_batch 0 (5 / 10) (9 / 10)) =
     Inr (0,
          [(''val_mcc'', 9 / 10), (''val_r2'', 5 / 10), (''val_elbo_loss'', 0),
           (''val_recon_loss'', 0), (''val_kld_content'', 0), (''val_kld_style'', 0),
           (''best_r2'', 5 / 10), (''mcc_at_best_r2'', 9 / 10), (''best_mcc'', 9 / 10),
           (''r2_at_best_mcc'', 5 / 10), (''best_sum_mcc'', 9 / 10), (''best_sum_r2'', 5 / 10)],
          demo_after (5 / 10) (9 / 10) (9 / 10) (5 / 10) (14 / 10) (9 / 10) (5 / 10) (5 / 10)) \<and>
   best_r2 (demo_after (5 / 10) (2 / 10) (2 / 10) (5 / 10) (7 / 10) (2 / 10) (5 / 10) (5 / 10))
     = 5 / 10 \<and>
   mcc_at_best_r2
     (demo_after (5 / 10) (2 / 10) (2 / 10) (5 / 10) (7 / 10) (2 / 10) (5 / 10) (5 / 10))
     = 2 / 10 \<and>
   best_r2 (demo_after (5 / 10) (9 / 10) (9 / 10) (5 / 10) (14 / 10) (9 / 10) (5 / 10) (5 / 10))
     = 5 / 10 \<and>
   mcc_at_best_r2
     (demo_after (5 / 10) (9 / 10) (9 / 10) (5 / 10) (14 / 10) (9 / 10) (5 / 10) (5 / 10))
     = 9 / 10 \<and>
   best_mcc (demo_after (5 / 10) (9 / 10) (9 / 10) (5 / 10) (14 / 10) (9 / 10) (5 / 10) (5 / 10))
     = 9 / 10 \<and>
   best_sum (demo_after (5 / 10) (9 / 10) (9 / 10) (5 / 10) (14 / 10) (9 / 10) (5 / 10) (5 / 10))
     = 9 / 10 + 5 / 10"
proof -
  have r: "map_of [(''val_mcc'', 9 / 10), (''val_r2'', 5 / 10), (''val_elbo_loss'', 0),
           (''val_recon_loss'', 0), (''val_kld_content'', 0), (''val_kld_style'', 0),
           (''best_r2'', 5 / 10), (''mcc_at_best_r2'', 9 / 10), (''best_mcc'', 9 / 10),
           (''r2_at_best_mcc'', 5 / 10), (''best_sum_mcc'', 9 / 10), (''best_sum_r2'', 5 / 10)]
           ''val_r2'' = Some (5 / 10 :: real)"
    by simp
  have q: "map_of [(''val_mcc'', 9 / 10), (''val_r2'', 5 / 10), (''val_elbo_loss'', 0),
           (''val_recon_loss'', 0), (''val_kld_content'', 0), (''val_kld_style'', 0),
           (''best_r2'', 5 / 10), (''mcc_at_best_r2'', 9 / 10), (''best_mcc'', 9 / 10),
           (''r2_at_best_mcc'', 5 / 10), (''best_sum_mcc'', 9 / 10), (''best_sum_r2'', 5 / 10)]
           ''val_mcc'' = Some (9 / 10 :: real)"
    by simp
  from ties_favor_latest [OF demo_step_tie r q] demo_step_tie show ?thesis
    by (simp add: demo_after_sel)
qed

section \<open>The direction of the regression score\<close>

text \<open>
  Claim C9. The score that \<^verbatim>\<open>validation_step\<close> logs as \<^verbatim>\<open>val_r2\<close> and stores in
  \<^verbatim>\<open>self.val_r2\<close> is \<open>compute_r2\<close> of the ground truth and the predicted content
  means, in this order, when \<open>hz_to_z\<close> is true, and \<open>compute_r2\<close> of the predicted
  content means and the ground truth when it is false.
\<close>

theorem r2_direction:
  assumes "validation_step ext m b = Inr (loss, lg, m')"
    and "embed_input m (batch_x b) (batch_c b) = Inr x"
    and "net m x = (x_recon, mus, logvars, zs)"
  shows "map_of lg ''val_r2'' =
           Some (if hz_to_z m
                 then compute_r2 ext (cols_to (c_dim m) (batch_y b)) (cols_to (c_dim m) mus)
                 else compute_r2 ext (cols_to (c_dim m) mus) (cols_to (c_dim m) (batch_y b))) \<and>
         val_r2 m' = map_of lg ''val_r2''"
proof -
  from validation_step_state [OF assms(1)] obtain x' r kc ks where
    x': "embed_input m (batch_x b) (batch_c b) = Inr x'"
    and m': "m' = (fst (update_best (step_r2 ext m (fst (snd (net m x'))) (batch_y b))
                       (step_mcc ext m (fst (snd (net m x'))) (batch_y b)) m))
                  \<lparr>val_r2 := Some (step_r2 ext m (fst (snd (net m x'))) (batch_y b))\<rparr>"
    and lg: "lg = [(''val_mcc'', step_mcc ext m (fst (snd (net m x'))) (batch_y b)),
                 (''val_r2'', step_r2 ext m (fst (snd (net m x'))) (batch_y b)),
                 (''val_elbo_loss'', loss),
                 (''val_recon_loss'', r),
                 (''val_kld_content'', kc),
                 (''val_kld_style'', ks)] @
                snd (update_best (step_r2 ext m (fst (snd (net m x'))) (batch_y b))
                       (step_mcc ext m (fst (snd (net m x'))) (batch_y b)) m)"
    by blast
  from x' assms(2) have "x' = x" by simp
  with assms(3) have mus: "fst (snd (net m x')) = mus" by simp
  show ?thesis
    unfolding m' lg mus by (simp add: step_r2_def)
qed

lemma demo_step_flag_off:
  "validation_step demo_ext (demo_m\<lparr>hz_to_z := False\<rparr>) (demo_batch 0 (5 / 10) (9 / 10)) =
     Inr (0,
          [(''val_mcc'', 9 / 10), (''val_r2'', 0), (''val_elbo_loss'', 0),
           (''val_recon_loss'', 0), (''val_kld_content'', 0), (''val_kld_style'', 0)] @
          snd (update_best 0 (9 / 10) (demo_m\<lparr>hz_to_z := False\<rparr>)),
          (fst (update_best 0 (9 / 10) (demo_m\<lparr>hz_to_z := False\<rparr>)))\<lparr>val_r2 := Some 0\<rparr>)"
  using demo_validation_step [of "demo_m\<lparr>hz_to_z := False\<rparr>" 0 "5 / 10" "9 / 10"]
  by (simp add: demo_cfg)

theorem r2_direction_witness:
  "map_of ([(''val_mcc'', 9 / 10), (''val_r2'', 5 / 10), (''val_elbo_loss'', 0),
            (''val_recon_loss'', 0), (''val_kld_content'', 0), (''val_kld_style'', 0)] @
           snd (update_best (5 / 10) (9 / 10) demo_m)) ''val_r2'' =
     Some (compute_r2 demo_ext (cols_to (c_dim demo_m) (batch_y (demo_batch 0 (5 / 10) (9 / 10))))
             (cols_to (c_dim demo_m) [[0, 0]])) \<and>
   compute_r2 demo_ext (cols_to (c_dim demo_m) (batch_y (demo_batch 0 (5 / 10) (9 / 10))))
     (cols_to (c_dim demo_m) [[0, 0]]) = 5 / 10 \<and>
   map_of ([(''val_mcc'', 9 / 10), (''val_r2'', 0), (''val_elbo_loss'', 0),
            (''val_recon_loss'', 0), (''val_kld_content'', 0), (''val_kld_style'', 0)] @
           snd (update_best 0 (9 / 10) (demo_m\<lparr>hz_to_z := False\<rparr>))) ''val_r2'' =
     Some (compute_r2 demo_ext (cols_to (c_dim demo_m) [[0, 0]])
             (cols_to (c_dim demo_m) (batch_y (demo_batch 0 (5 / 10) (9 / 10))))) \<and>
   compute_r2 demo_ext (cols_to (c_dim demo_m) [[0, 0]])
     (cols_to (c_dim demo_m) (batch_y (demo_batch 0 (5 / 10) (9 / 10)))) = 0"
proof -
  have e1: "embed_input demo_m (batch_x (demo_batch 0 (5 / 10) (9 / 10)))
              (batch_c (demo_batch 0 (5 / 10) (9 / 10))) = Inr [[0]]"
    by (simp add: embed_input_def demo_cfg demo_batch_def)
  have n1: "net demo_m [[0]] = ([[0]], [[0, 0]], [[0, 0]], [[0, 0]])"
    by (simp add: demo_cfg demo_net_one)
  have e2: "embed_input (demo_m\<lparr>hz_to_z := False\<rparr>) (batch_x (demo_batch 0 (5 / 10) (9 / 10)))
              (batch_c (demo_batch 0 (5 / 10) (9 / 10))) = Inr [[0]]"
    by (simp add: embed_input_def demo_cfg demo_batch_def)
  have n2: "net (demo_m\<lparr>hz_to_z := False\<rparr>) [[0]] = ([[0]], [[0, 0]], [[0, 0]], [[0, 0]])"
    by (simp add: demo_cfg demo_net_one)
  have v1: "compute_r2 demo_ext
      (cols_to (c_dim demo_m) (batch_y (demo_batch 0 (5 / 10) (9 / 10))))
      (cols_to (c_dim demo_m) [[0, 0]]) = 5 / 10"
    by (simp add: demo_ext_def cols_to_def demo_cfg demo_batch_def)
  have v2: "compute_r2 demo_ext (cols_to (c_dim demo_m) [[0, 0]])
      (cols_to (c_dim demo_m) (batch_y (demo_batch 0 (5 / 10) (9 / 10)))) = 0"
    by (simp add: demo_ext_def cols_to_def demo_cfg demo_batch_def)
  from r2_direction [OF demo_step_fresh e1 n1] r2_direction [OF demo_step_flag_off e2 n2] v1 v2
  show ?thesis
    by (simp add: demo_cfg)
qed

section \<open>Errors\<close>

text \<open>
  Claim C5. \<^verbatim>\<open>reconstruction_loss\<close> fails with the assertion error exactly on a batch
  without rows, whatever the other arguments are. A training or validation step on a
  batch without rows (and without labels) ends in this assertion error, so that no
  loss term is returned or logged.
\<close>

theorem zero_batch_assertion:
  "(x = [] \<longrightarrow> reconstruction_loss x xr d = Inl AssertionError) \<and>
   (x \<noteq> [] \<longrightarrow> reconstruction_loss x xr d \<noteq> Inl AssertionError) \<and>
   (batch_x b = [] \<and> length (batch_c b) = length (batch_x b) \<longrightarrow>
      training_step ext m b = Inl AssertionError \<and>
      validation_step ext m b = Inl AssertionError)"
proof (intro conjI impI)
  assume "x = []"
  then show "reconstruction_loss x xr d = Inl AssertionError"
    by (simp add: reconstruction_loss_empty)
next
  assume x: "x \<noteq> []"
  have mse: "mse_loss_sum a t \<noteq> Inl AssertionError" for a t
    by (simp add: mse_loss_sum_def broadcast_tensors_def split: sum.splits option.splits)
  have bce: "binary_cross_entropy_with_logits_sum a t \<noteq> Inl AssertionError" for a t
    by (simp add: binary_cross_entropy_with_logits_sum_def)
  have keep: "(case r of Inl e \<Rightarrow> Inl e | Inr v \<Rightarrow> Inr (v / real (length x))) \<noteq>
      Inl AssertionError" if "r \<noteq> Inl AssertionError" for r :: "error + real"
    using that by (cases r) simp_all
  show "reconstruction_loss x xr d \<noteq> Inl AssertionError"
    using x by (simp add: reconstruction_loss_def Let_def keep [OF mse] keep [OF bce])
next
  assume "batch_x b = [] \<and> length (batch_c b) = length (batch_x b)"
  then have e: "batch_x b = []" "batch_c b = []" by auto
  show "training_step ext m b = Inl AssertionError"
    by (simp add: training_step_def e embed_input_empty elbo_loss_empty)
  show "validation_step ext m b = Inl AssertionError"
    by (simp add: validation_step_def e embed_input_empty elbo_loss_empty split: prod.splits)
qed

theorem zero_batch_assertion_witness:
  "reconstruction_loss [] [] ''gaussian'' = Inl AssertionError \<and>
   [[1 :: real]] \<noteq> [] \<and>
   reconstruction_loss [[1]] [[1]] ''gaussian'' \<noteq> Inl AssertionError \<and>
   batch_x \<lparr>batch_x = [], batch_c = [], batch_y = []\<rparr> = [] \<and>
   length (batch_c \<lparr>batch_x = [], batch_c = [], batch_y = []\<rparr>) =
     length (batch_x \<lparr>batch_x = [], batch_c = [], batch_y = []\<rparr>) \<and>
   training_step demo_ext demo_m \<lparr>batch_x = [], batch_c = [], batch_y = []\<rparr> =
     Inl AssertionError \<and>
   validation_step demo_ext demo_m \<lparr>batch_x = [], batch_c = [], batch_y = []\<rparr> =
     Inl AssertionError"
  using zero_batch_assertion [of "[]" "[]" "''gaussian''"
      "\<lparr>batch_x = [], batch_c = [], batch_y = []\<rparr>" demo_ext demo_m]
    zero_batch_assertion [of "[[1]]" "[[1]]" "''gaussian''"
      "\<lparr>batch_x = [], batch_c = [], batch_y = []\<rparr>" demo_ext demo_m]
  by simp

lemma lower_examples:
  "lower ''ADAM'' = ''adam''" "lower ''adam'' = ''adam''" "lower ''RMSprop'' = ''rmsprop''"
  "lower ''sgd'' = ''sgd''"
  by code_simp+

text \<open>
  Claim C6, as amended. The name is compared after \<^verbatim>\<open>lower()\<close>: when the lower-cased
  name is neither \<open>adam\<close> nor \<open>rmsprop\<close>, \<^verbatim>\<open>configure_optimizers\<close> raises
  \<open>NotImplementedError\<close>; when it is \<open>adam\<close> the result is one AdamW optimizer, and
  when it is \<open>rmsprop\<close> one RMSprop optimizer, each with an empty list of schedulers.
\<close>

theorem configure_optimizers_cases:
  "(lower (optimizer m) \<noteq> ''adam'' \<and> lower (optimizer m) \<noteq> ''rmsprop'' \<longrightarrow>
      configure_optimizers m = Inl NotImplementedError) \<and>
   (lower (optimizer m) = ''adam'' \<longrightarrow>
      configure_optimizers m = Inr ([AdamW (lr m) (9 / 10, 999 / 1000) (1 / 10000)], [])) \<and>
   (lower (optimizer m) = ''rmsprop'' \<longrightarrow>
      configure_optimizers m = Inr ([RMSprop (lr m)], []))"
  by (simp add: configure_optimizers_def)

theorem configure_optimizers_cases_witness:
  "lower (optimizer (demo_m\<lparr>optimizer := ''sgd''\<rparr>)) \<noteq> ''adam'' \<and>
   lower (optimizer (demo_m\<lparr>optimizer := ''sgd''\<rparr>)) \<noteq> ''rmsprop'' \<and>
   configure_optimizers (demo_m\<lparr>optimizer := ''sgd''\<rparr>) = Inl NotImplementedError \<and>
   lower (optimizer demo_m) = ''adam'' \<and>
   configure_optimizers demo_m =
     Inr ([AdamW (lr demo_m) (9 / 10, 999 / 1000) (1 / 10000)], []) \<and>
   lower (optimizer (demo_m\<lparr>optimizer := ''RMSprop''\<rparr>)) = ''rmsprop'' \<and>
   configure_optimizers (demo_m\<lparr>optimizer := ''RMSprop''\<rparr>) =
     Inr ([RMSprop (lr (demo_m\<lparr>optimizer := ''RMSprop''\<rparr>))], [])"
proof -
  have o: "optimizer demo_m = ''adam''" by (simp add: demo_m_def)
  from configure_optimizers_cases [of "demo_m\<lparr>optimizer := ''sgd''\<rparr>"]
    configure_optimizers_cases [of demo_m]
    configure_optimizers_cases [of "demo_m\<lparr>optimizer := ''RMSprop''\<rparr>"]
  show ?thesis
    by (simp add: lower_examples o)
qed

text \<open>The name \<open>ADAM\<close> is neither \<open>adam\<close> nor \<open>rmsprop\<close>, and it is accepted.\<close>

theorem configure_optimizers_uppercase:
  "optimizer (demo_m\<lparr>optimizer := ''ADAM''\<rparr>) \<noteq> ''adam'' \<and>
   optimizer (demo_m\<lparr>optimizer := ''ADAM''\<rparr>) \<noteq> ''rmsprop'' \<and>
   configure_optimizers (demo_m\<lparr>optimizer := ''ADAM''\<rparr>) =
     Inr ([AdamW (1 / 10000) (9 / 10, 999 / 1000) (1 / 10000)], [])"
  by (simp add: configure_optimizers_def lower_examples demo_m_def)

lemma elbo_loss_unsupported:
  assumes "decoder_dist m \<notin> {''bernoulli'', ''gaussian'', ''sigmoid_gaussian''}"
  shows "isl (elbo_loss ext m x c out)"
  using assms
  by (simp add: elbo_loss_def reconstruction_loss_def Let_def split: prod.splits)

text \<open>
  Claim C7. For a family other than \<open>bernoulli\<close>, \<open>gaussian\<close> and
  \<open>sigmoid_gaussian\<close>, \<^verbatim>\<open>reconstruction_loss\<close> returns no value: on a batch with rows
  no branch binds \<^verbatim>\<open>recon_loss\<close> and the \<^verbatim>\<open>return\<close> raises, and on a batch without
  rows the assertion fails first. A step of a model configured with such a family
  therefore ends in an error.
\<close>

theorem unsupported_family_no_loss:
  assumes "d \<notin> {''bernoulli'', ''gaussian'', ''sigmoid_gaussian''}"
  shows "reconstruction_loss x x_recon d =
           (if x = [] then Inl AssertionError else Inl UnboundLocalError) \<and>
         (decoder_dist m = d \<longrightarrow>
            isl (training_step ext m b) \<and> isl (validation_step ext m b))"
proof (intro conjI impI)
  show "reconstruction_loss x x_recon d =
          (if x = [] then Inl AssertionError else Inl UnboundLocalError)"
    using assms by (simp add: reconstruction_loss_def)
next
  assume d: "decoder_dist m = d"
  have e: "isl (elbo_loss ext m x' c out)" for x' c out
    using elbo_loss_unsupported [of m ext x' c out] assms d by simp
  show "isl (training_step ext m b)"
  proof (cases "embed_input m (batch_x b) (batch_c b)")
    case (Inl err)
    then show ?thesis by (simp add: training_step_def)
  next
    case (Inr x')
    from e [of x' "batch_c b" "net m x'"] obtain err
      where "elbo_loss ext m x' (batch_c b) (net m x') = Inl err"
      by (auto simp: isl_def)
    with Inr show ?thesis by (simp add: training_step_def)
  qed
  show "isl (validation_step ext m b)"
  proof (cases "embed_input m (batch_x b) (batch_c b)")
    case (Inl err)
    then show ?thesis by (simp add: validation_step_def)
  next
    case (Inr x')
    from e [of x' "batch_c b" "net m x'"] obtain err
      where "elbo_loss ext m x' (batch_c b) (net m x') = Inl err"
      by (auto simp: isl_def)
    with Inr show ?thesis by (auto simp add: validation_step_def split: prod.splits)
  qed
qed

theorem unsupported_family_no_loss_witness:
  "''laplace'' \<notin> {''bernoulli'', ''gaussian'', ''sigmoid_gaussian''} \<and>
   reconstruction_loss [[0]] [[0]] ''laplace'' = Inl UnboundLocalError \<and>
   decoder_dist (demo_m\<lparr>decoder_dist := ''laplace''\<rparr>) = ''laplace'' \<and>
   isl (training_step demo_ext (demo_m\<lparr>decoder_dist := ''laplace''\<rparr>) (demo_batch 0 0 0)) \<and>
   isl (validation_step demo_ext (demo_m\<lparr>decoder_dist := ''laplace''\<rparr>) (demo_batch 0 0 0))"
proof -
  have h: "''laplace'' \<notin> {''bernoulli'', ''gaussian'', ''sigmoid_gaussian''}" by simp
  from unsupported_family_no_loss [OF h, of "[[0]]" "[[0]]"
      "demo_m\<lparr>decoder_dist := ''laplace''\<rparr>" demo_ext "demo_batch 0 0 0"] h
  show ?thesis by simp
qed

section \<open>Warm start\<close>

lemma spline_loop_warm:
  assumes "a_use_warm_start a"
  shows "spline_loop ext a ns = Inr sl \<Longrightarrow>
           length sl = length ns \<and> (\<forall>f\<in>set sl. torch_load ext (a_spline_pth a) = Inr f)"
proof (induction ns arbitrary: sl)
  case Nil
  then show ?case by simp
next
  case (Cons i ns)
  from Cons.prems assms obtain sd rest where
    ld: "torch_load ext (a_spline_pth a) = Inr sd"
    and rest: "spline_loop ext a ns = Inr rest"
    and sl: "sl = sd # rest"
    by (auto simp: Let_def load_state_dict_def split: sum.splits if_splits)
  from Cons.IH [OF rest] ld sl show ?case by simp
qed

text \<open>
  Claim C10. When \<^verbatim>\<open>use_warm_start\<close> is set and the constructor returns, the module
  list has \<open>nclass\<close> flows and the state of every one of them is what
  \<^verbatim>\<open>torch.load\<close> returns for the one path \<^verbatim>\<open>spline_pth\<close>; so any two flows of the
  list start with the same parameters.
\<close>

theorem warm_start_same_checkpoint:
  assumes "a_use_warm_start a" and "SSA_init ext a = Inr m"
  shows "nclass m = a_nclass a \<and>
         length (spline_list m) = a_nclass a \<and>
         (\<forall>f\<in>set (spline_list m). torch_load ext (a_spline_pth a) = Inr f) \<and>
         (\<forall>f\<in>set (spline_list m). \<forall>g\<in>set (spline_list m). f = g)"
proof -
  from assms(2) obtain sl where
    loop: "spline_loop ext a [0..<a_nclass a] = Inr sl"
    and m: "spline_list m = sl" "nclass m = a_nclass a"
    by (auto simp: SSA_init_def split: sum.splits)
  from spline_loop_warm [OF assms(1) loop]
  have len: "length sl = a_nclass a"
    and same: "\<forall>f\<in>set sl. torch_load ext (a_spline_pth a) = Inr f"
    by simp_all
  from same have "\<forall>f\<in>set sl. \<forall>g\<in>set sl. f = g"
    by (metis sum.inject(2))
  with len same m show ?thesis by simp
qed

lemma demo_init_warm:
  "SSA_init demo_ext (demo_args\<lparr>a_use_warm_start := True, a_spline_pth := Some ''spline.pth''\<rparr>) =
     Inr (demo_m\<lparr>spline_list := [5, 5]\<rparr>)"
  by (simp add: SSA_init_def demo_args_def demo_m_def upt2 demo_ext_def demo_net_def
      numeral_2_eq_2 load_state_dict_def)

theorem warm_start_same_checkpoint_witness:
  "a_use_warm_start (demo_args\<lparr>a_use_warm_start := True, a_spline_pth := Some ''spline.pth''\<rparr>) \<and>
   SSA_init demo_ext (demo_args\<lparr>a_use_warm_start := True, a_spline_pth := Some ''spline.pth''\<rparr>) =
     Inr (demo_m\<lparr>spline_list := [5, 5]\<rparr>) \<and>
   nclass (demo_m\<lparr>spline_list := [5, 5]\<rparr>) = 2 \<and>
   length (spline_list (demo_m\<lparr>spline_list := [5, 5]\<rparr>)) = 2 \<and>
   spline_list (demo_m\<lparr>spline_list := [5, 5]\<rparr>) = [5, 5] \<and>
   torch_load demo_ext (Some ''spline.pth'') = Inr 5"
proof -
  have w: "a_use_warm_start
      (demo_args\<lparr>a_use_warm_start := True, a_spline_pth := Some ''spline.pth''\<rparr>)"
    by simp
  have n: "a_nclass (demo_args\<lparr>a_use_warm_start := True, a_spline_pth := Some ''spline.pth''\<rparr>) = 2"
    by (simp add: demo_args_def)
  have l: "torch_load demo_ext (Some ''spline.pth'') = Inr 5"
    by (simp add: demo_ext_def)
  from warm_start_same_checkpoint [OF w demo_init_warm] demo_init_warm n l show ?thesis
    by simp
qed

section \<open>The content KLD at the prior\<close>

lemma content_row_agrees:
  assumes "length mu = length lv" and "length lv = length z"
  shows "(\<forall>v\<in>set (take c mu). v = 0) \<Longrightarrow> (\<forall>v\<in>set (take c lv). v = 0) \<Longrightarrow>
     take c (map2 (\<lambda>(l', s') x. Normal_log_prob1 l' s' x)
               (zip mu (map (\<lambda>v. exp (v / 2)) lv)) z) =
     map2 (\<lambda>(l', s') x. Normal_log_prob1 l' s' x)
       (zip (map (\<lambda>_. 0) (take c mu)) (map (\<lambda>_. 1) (take c lv))) (take c z)"
  using assms
proof (induction mu lv z arbitrary: c rule: list_induct3)
  case Nil
  then show ?case by simp
next
  case (Cons a mu b lv d z)
  show ?case
  proof (cases c)
    case 0
    then show ?thesis by simp
  next
    case (Suc c')
    with Cons.prems have "a = 0" "b = 0"
      and "\<forall>v\<in>set (take c' mu). v = 0" "\<forall>v\<in>set (take c' lv). v = 0"
      by simp_all
    with Cons.IH [of c'] Suc show ?thesis by simp
  qed
qed

lemma content_log_probs_agree:
  assumes "map length mus = map length zs" and "map length logvars = map length zs"
    and "\<forall>row\<in>set mus. \<forall>v\<in>set (take c row). v = 0"
    and "\<forall>row\<in>set logvars. \<forall>v\<in>set (take c row). v = 0"
  shows "cols_to c (Normal_log_prob mus (map (map (\<lambda>v. exp (v / 2))) logvars) zs) =
         Normal_log_prob (zeros_like (cols_to c mus)) (ones_like (cols_to c logvars))
           (cols_to c zs)"
proof -
  from assms(1,2) have "length mus = length logvars" "length logvars = length zs"
    by (metis length_map)+
  then show ?thesis
    using assms
  proof (induction mus logvars zs rule: list_induct3)
    case Nil
    then show ?case
      by (simp add: cols_to_def Normal_log_prob_def zeros_like_def ones_like_def)
  next
    case (Cons mu mus lv logvars z zs)
    from Cons.prems have len: "length mu = length lv" "length lv = length z"
      and z: "\<forall>v\<in>set (take c mu). v = 0" "\<forall>v\<in>set (take c lv). v = 0"
      by simp_all
    from Cons.prems have
      "cols_to c (Normal_log_prob mus (map (map (\<lambda>v. exp (v / 2))) logvars) zs) =
       Normal_log_prob (zeros_like (cols_to c mus)) (ones_like (cols_to c logvars))
         (cols_to c zs)"
      by (intro Cons.IH) simp_all
    with content_row_agrees [OF len z] show ?case
      by (simp add: cols_to_def Normal_log_prob_def zeros_like_def ones_like_def)
  qed
qed

lemma mean_diff_self: "mean (map2 (-) t t) = 0"
proof -
  have "map2 (-) t t = map (\<lambda>_. 0) t"
    by (induction t) simp_all
  then show ?thesis by (simp add: mean_def)
qed

lemma content_kld_at_prior:
  assumes "map length mus = map length zs" and "map length logvars = map length zs"
    and "\<forall>row\<in>set mus. \<forall>v\<in>set (take cd row). v = 0"
    and "\<forall>row\<in>set logvars. \<forall>v\<in>set (take cd row). v = 0"
  shows "content_kld cd mus logvars zs = 0"
  unfolding content_kld_def Let_def content_log_probs_agree [OF assms]
  by (rule mean_diff_self)

lemma elbo_loss_kld_content_zero:
  assumes "elbo_loss ext m x c (x_recon, mus, logvars, zs) = Inr (loss, r, kc, ks)"
    and "map length mus = map length zs" and "map length logvars = map length zs"
    and "\<forall>row\<in>set mus. \<forall>v\<in>set (take (c_dim m) row). v = 0"
    and "\<forall>row\<in>set logvars. \<forall>v\<in>set (take (c_dim m) row). v = 0"
  shows "kc = 0"
  using elbo_loss_parts [OF assms(1)] content_kld_at_prior [OF assms(2-5)] by auto

text \<open>
  Claim C8. Let the encoder return means, log-variances and samples of one shape, with
  means and log-variances equal to 0 on the first \<open>c_dim\<close> columns. Then every step
  that returns (so every step on a batch with at least one row) logs a content KLD of
  exactly 0, whatever the sampled points are.
\<close>

theorem content_kld_zero_at_prior:
  assumes "embed_input m (batch_x b) (batch_c b) = Inr x"
    and "net m x = (x_recon, mus, logvars, zs)"
    and "map length mus = map length zs" and "map length logvars = map length zs"
    and "\<forall>row\<in>set mus. \<forall>v\<in>set (take (c_dim m) row). v = 0"
    and "\<forall>row\<in>set logvars. \<forall>v\<in>set (take (c_dim m) row). v = 0"
  shows "(training_step ext m b = Inr (loss, lg) \<longrightarrow>
            map_of lg ''train_kld_content'' = Some 0) \<and>
         (validation_step ext m b = Inr (vloss, vlg, m') \<longrightarrow>
            map_of vlg ''val_kld_content'' = Some 0)"
proof (intro conjI impI)
  assume "training_step ext m b = Inr (loss, lg)"
  from training_step_parts [OF this] assms(1,2) obtain r kc ks
    where e: "elbo_loss ext m x (batch_c b) (x_recon, mus, logvars, zs) = Inr (loss, r, kc, ks)"
      and lg: "lg = [(''train_elbo_loss'', loss), (''train_recon_loss'', r),
                     (''train_kld_content'', kc), (''train_kld_style'', ks)]"
    by auto
  from elbo_loss_kld_content_zero [OF e assms(3-6)] show "map_of lg ''train_kld_content'' = Some 0"
    by (simp add: lg)
next
  assume "validation_step ext m b = Inr (vloss, vlg, m')"
  from validation_step_state [OF this] assms(1,2) obtain r kc ks tl_log
    where e: "elbo_loss ext m x (batch_c b) (x_recon, mus, logvars, zs) = Inr (vloss, r, kc, ks)"
      and lg: "vlg = [(''val_mcc'', step_mcc ext m mus (batch_y b)),
                 (''val_r2'', step_r2 ext m mus (batch_y b)),
                 (''val_elbo_loss'', vloss),
                 (''val_recon_loss'', r),
                 (''val_kld_content'', kc),
                 (''val_kld_style'', ks)] @ tl_log"
    by auto
  from elbo_loss_kld_content_zero [OF e assms(3-6)] show "map_of vlg ''val_kld_content'' = Some 0"
    by (simp add: lg)
qed

text \<open>An instance whose encoder returns the sample \<open>[3, 0]\<close> at zero means and
  log-variances.\<close>

lemma demo_training_step_sample:
  "training_step demo_ext
     (demo_m\<lparr>net := \<lambda>x. (x, [[0, 0]], [[0, 0]], [[3, 0]])\<rparr>) (demo_batch 1 (1 / 2) (9 / 10)) =
     Inr (- ln 2 / 1000,
          [(''train_elbo_loss'', - ln 2 / 1000), (''train_recon_loss'', 0),
           (''train_kld_content'', 0), (''train_kld_style'', - ln 2)])"
proof -
  have e: "elbo_loss demo_ext (demo_m\<lparr>net := \<lambda>x. (x, [[0, 0]], [[0, 0]], [[3, 0]])\<rparr>)
      [[0]] [1] ([[0]], [[0, 0]], [[0, 0]], [[3, 0]]) =
      Inr (gamma (demo_m\<lparr>net := \<lambda>x. (x, [[0, 0]], [[0, 0]], [[3, 0]])\<rparr>) * - ln 2, 0, 0, - ln 2)"
    using demo_elbo [of "demo_m\<lparr>net := \<lambda>x. (x, [[0, 0]], [[0, 0]], [[3, 0]])\<rparr>" 1 3]
    by (simp add: demo_cfg)
  show ?thesis
    by (simp add: training_step_def demo_batch_def embed_input_def demo_cfg e)
qed

lemma demo_validation_step_sample:
  "validation_step demo_ext
     (demo_m\<lparr>net := \<lambda>x. (x, [[0, 0]], [[0, 0]], [[3, 0]])\<rparr>) (demo_batch 1 (1 / 2) (9 / 10)) =
     Inr (- ln 2 / 1000,
          [(''val_mcc'', 9 / 10), (''val_r2'', 1 / 2), (''val_elbo_loss'', - ln 2 / 1000),
           (''val_recon_loss'', 0), (''val_kld_content'', 0), (''val_kld_style'', - ln 2),
           (''best_r2'', 1 / 2), (''mcc_at_best_r2'', 9 / 10), (''best_mcc'', 9 / 10),
           (''r2_at_best_mcc'', 1 / 2), (''best_sum_mcc'', 9 / 10), (''best_sum_r2'', 1 / 2)],
          (demo_after (1 / 2) (9 / 10) (9 / 10) (1 / 2) (7 / 5) (9 / 10) (1 / 2) (1 / 2))
            \<lparr>net := \<lambda>x. (x, [[0, 0]], [[0, 0]], [[3, 0]])\<rparr>)"
proof -
  have e: "elbo_loss demo_ext (demo_m\<lparr>net := \<lambda>x. (x, [[0, 0]], [[0, 0]], [[3, 0]])\<rparr>)
      [[0]] [1] ([[0]], [[0, 0]], [[0, 0]], [[3, 0]]) =
      Inr (gamma (demo_m\<lparr>net := \<lambda>x. (x, [[0, 0]], [[0, 0]], [[3, 0]])\<rparr>) * - ln 2, 0, 0, - ln 2)"
    using demo_elbo [of "demo_m\<lparr>net := \<lambda>x. (x, [[0, 0]], [[0, 0]], [[3, 0]])\<rparr>" 1 3]
    by (simp add: demo_cfg)
  have r2: "step_r2 demo_ext (demo_m\<lparr>net := \<lambda>x. (x, [[0, 0]], [[0, 0]], [[3, 0]])\<rparr>)
      [[0, 0]] [[1 / 2, 9 / 10]] = 1 / 2"
    by (simp add: step_r2_def demo_ext_def cols_to_def demo_cfg)
  have mcc: "step_mcc demo_ext (demo_m\<lparr>net := \<lambda>x. (x, [[0, 0]], [[0, 0]], [[3, 0]])\<rparr>)
      [[0, 0]] [[1 / 2, 9 / 10]] = 9 / 10"
    by (simp add: step_mcc_def demo_ext_def cols_from_def demo_cfg Let_def)
  have u: "update_best (1 / 2) (9 / 10) (demo_m\<lparr>net := \<lambda>x. (x, [[0, 0]], [[0, 0]], [[3, 0]])\<rparr>) =
      ((demo_after (1 / 2) (9 / 10) (9 / 10) (1 / 2) (7 / 5) (9 / 10) (1 / 2) (1 / 2))
            \<lparr>net := \<lambda>x. (x, [[0, 0]], [[0, 0]], [[3, 0]]), val_r2 := None\<rparr>,
       [(''best_r2'', 1 / 2), (''mcc_at_best_r2'', 9 / 10), (''best_mcc'', 9 / 10),
           (''r2_at_best_mcc'', 1 / 2), (''best_sum_mcc'', 9 / 10), (''best_sum_r2'', 1 / 2)])"
    by (simp add: update_best_def Let_def demo_after_def demo_m_def)
  show ?thesis
    unfolding validation_step_def
    by (simp add: demo_batch_def embed_input_def demo_cfg e r2 mcc u Let_def)
      (simp add: demo_after_def)
qed

theorem content_kld_zero_at_prior_witness:
  "embed_input (demo_m\<lparr>net := \<lambda>x. (x, [[0, 0]], [[0, 0]], [[3, 0]])\<rparr>)
     (batch_x (demo_batch 1 (1 / 2) (9 / 10))) (batch_c (demo_batch 1 (1 / 2) (9 / 10))) =
     Inr [[0]] \<and>
   net (demo_m\<lparr>net := \<lambda>x. (x, [[0, 0]], [[0, 0]], [[3, 0]])\<rparr>) [[0]] =
     ([[0]], [[0, 0]], [[0, 0]], [[3, 0]]) \<and>
   map length [[0, 0 :: real]] = map length [[3, 0 :: real]] \<and>
   take (c_dim demo_m) [0, 0 :: real] = [0] \<and>
   training_step demo_ext
     (demo_m\<lparr>net := \<lambda>x. (x, [[0, 0]], [[0, 0]], [[3, 0]])\<rparr>) (demo_batch 1 (1 / 2) (9 / 10)) =
     Inr (- ln 2 / 1000,
          [(''train_elbo_loss'', - ln 2 / 1000), (''train_recon_loss'', 0),
           (''train_kld_content'', 0), (''train_kld_style'', - ln 2)]) \<and>
   map_of [(''train_elbo_loss'', - ln 2 / 1000), (''train_recon_loss'', 0),
           (''train_kld_content'', 0), (''train_kld_style'', - ln 2)] ''train_kld_content'' =
     Some 0 \<and>
   validation_step demo_ext
     (demo_m\<lparr>net := \<lambda>x. (x, [[0, 0]], [[0, 0]], [[3, 0]])\<rparr>) (demo_batch 1 (1 / 2) (9 / 10)) =
     Inr (- ln 2 / 1000,
          [(''val_mcc'', 9 / 10), (''val_r2'', 1 / 2), (''val_elbo_loss'', - ln 2 / 1000),
           (''val_recon_loss'', 0), (''val_kld_content'', 0), (''val_kld_style'', - ln 2),
           (''best_r2'', 1 / 2), (''mcc_at_best_r2'', 9 / 10), (''best_mcc'', 9 / 10),
           (''r2_at_best_mcc'', 1 / 2), (''best_sum_mcc'', 9 / 10), (''best_sum_r2'', 1 / 2)],
          (demo_after (1 / 2) (9 / 10) (9 / 10) (1 / 2) (7 / 5) (9 / 10) (1 / 2) (1 / 2))
            \<lparr>net := \<lambda>x. (x, [[0, 0]], [[0, 0]], [[3, 0]])\<rparr>) \<and>
   map_of [(''val_mcc'', 9 / 10), (''val_r2'', 1 / 2), (''val_elbo_loss'', - ln 2 / 1000),
           (''val_recon_loss'', 0), (''val_kld_content'', 0), (''val_kld_style'', - ln 2),
           (''best_r2'', 1 / 2), (''mcc_at_best_r2'', 9 / 10), (''best_mcc'', 9 / 10),
           (''r2_at_best_mcc'', 1 / 2), (''best_sum_mcc'', 9 / 10), (''best_sum_r2'', 1 / 2)]
     ''val_kld_content'' = Some (0 :: real)"
proof -
  have e: "embed_input (demo_m\<lparr>net := \<lambda>x. (x, [[0, 0]], [[0, 0]], [[3, 0]])\<rparr>)
     (batch_x (demo_batch 1 (1 / 2) (9 / 10))) (batch_c (demo_batch 1 (1 / 2) (9 / 10))) =
     Inr [[0]]"
    by (simp add: embed_input_def demo_cfg demo_batch_def)
  have n: "net (demo_m\<lparr>net := \<lambda>x. (x, [[0, 0]], [[0, 0]], [[3, 0]])\<rparr>) [[0]] =
     ([[0]], [[0, 0]], [[0, 0]], [[3, 0]])"
    by simp
  have s: "map length [[0, 0 :: real]] = map length [[3, 0 :: real]]"
    by simp
  have z: "\<forall>row\<in>set [[0, 0 :: real]].
      \<forall>v\<in>set (take (c_dim (demo_m\<lparr>net := \<lambda>x. (x, [[0, 0]], [[0, 0]], [[3, 0]])\<rparr>)) row). v = 0"
    by (simp add: demo_cfg)
  from content_kld_zero_at_prior [OF e n s s z z, of demo_ext]
    demo_training_step_sample demo_validation_step_sample e n
  show ?thesis by (simp add: demo_cfg)
qed

section \<open>The masked selection of the flow outputs\<close>

lemma sum_list_delta:
  fixes a :: "nat \<Rightarrow> 'a :: {monoid_add, times, one}"
  assumes "\<And>k. k < n \<Longrightarrow> a k * 0 = 0" and "\<And>k. k < n \<Longrightarrow> a k * 1 = a k"
  shows "sum_list (map (\<lambda>k. a k * (if k = j then 1 else 0)) [0..<n]) =
           (if j < n then a j else 0)"
  using assms
proof (induction n)
  case 0
  then show ?case by simp
next
  case (Suc n)
  have ih: "sum_list (map (\<lambda>k. a k * (if k = j then 1 else 0)) [0..<n]) =
              (if j < n then a j else 0)"
    by (rule Suc.IH) (simp_all add: Suc.prems)
  have z: "a n * 0 = 0" and o: "a n * 1 = a n"
    by (simp_all add: Suc.prems)
  show ?case
    by (auto simp: ih z o less_Suc_eq)
qed

lemma one_hot_row_nat:
  assumes "0 \<le> l"
  shows "one_hot_row n l = map (\<lambda>k. if k = nat l then 1 else 0) [0..<n]"
  unfolding one_hot_row_def
  using assms by (intro map_cong) auto

lemma masked_sum_scalar:
  fixes a :: "nat \<Rightarrow> 'a :: {monoid_add, times, one}"
  assumes "0 \<le> l" and "l < int n"
    and "\<And>k. k < n \<Longrightarrow> a k * 0 = 0" and "\<And>k. k < n \<Longrightarrow> a k * 1 = a k"
  shows "sum_list (map2 (*) (map a [0..<n]) (one_hot_row n l)) = a (nat l)"
proof -
  have "map2 (*) (map a [0..<n]) (one_hot_row n l) =
        map (\<lambda>k. a k * (if k = nat l then 1 else 0)) [0..<n]"
    by (simp add: one_hot_row_nat [OF assms(1)] zip_map_map zip_same_conv_map)
  moreover from assms(1,2) have "nat l < n" by linarith
  ultimately show ?thesis
    using sum_list_delta [of n a "nat l"] assms(3,4) by simp
qed

lemma masked_sum_vector:
  fixes g :: "nat \<Rightarrow> 'a :: {monoid_add, times, one} list"
  assumes "0 \<le> l" and "l < int n" and "\<forall>k<n. length (g k) = s"
    and "\<And>k v. k < n \<Longrightarrow> v \<in> set (g k) \<Longrightarrow> v * 0 = 0 \<and> v * 1 = v"
  shows "sum_axis (map2 (\<lambda>v w. map (\<lambda>x. x * w) v) (map g [0..<n]) (one_hot_row n l)) =
         g (nat l)"
proof -
  from assms have n: "0 < n" and j: "nat l < n" by simp_all
  have prod: "map2 (\<lambda>v w. map (\<lambda>x. x * w) v) (map g [0..<n]) (one_hot_row n l) =
        map (\<lambda>k. map (\<lambda>x. x * (if k = nat l then 1 else 0)) (g k)) [0..<n]"
    by (simp add: one_hot_row_nat [OF assms(1)] zip_map_map zip_same_conv_map)
  have hd: "length (hd (map (\<lambda>k. map (\<lambda>x. x * (if k = nat l then 1 else 0)) (g k)) [0..<n])) = s"
    using n assms(3) by (simp add: hd_map upt_conv_Cons)
  have "sum_axis (map (\<lambda>k. map (\<lambda>x. x * (if k = nat l then 1 else 0)) (g k)) [0..<n]) =
        map (\<lambda>i. g (nat l) ! i) [0..<s]"
    unfolding sum_axis_def hd
  proof (rule map_cong [OF refl])
    fix i assume "i \<in> set [0..<s]"
    then have i: "i < s" by simp
    have eq: "map (\<lambda>v. v ! i) (map (\<lambda>k. map (\<lambda>x. x * (if k = nat l then 1 else 0)) (g k)) [0..<n]) =
          map (\<lambda>k. g k ! i * (if k = nat l then 1 else 0)) [0..<n]"
      unfolding map_map by (rule map_cong [OF refl]) (use i assms(3) in simp)
    have ok: "g k ! i * 0 = 0 \<and> g k ! i * 1 = g k ! i" if "k < n" for k
      using assms(4) [OF that, of "g k ! i"] assms(3) that i by simp
    show "sum_list (map (\<lambda>v. v ! i)
        (map (\<lambda>k. map (\<lambda>x. x * (if k = nat l then 1 else 0)) (g k)) [0..<n])) = g (nat l) ! i"
      unfolding eq using sum_list_delta [of n "\<lambda>k. g k ! i" "nat l"] ok j by simp
  qed
  also have "\<dots> = g (nat l)"
    using assms(3) j by (metis map_nth)
  finally show ?thesis by (simp add: prod)
qed

lemma reshape_rows:
  "\<forall>r\<in>set t. length r = s \<Longrightarrow>
     length (concat t) = length t * s \<and>
     map (\<lambda>i. take s (drop (i * s) (concat t))) [0..<length t] = t"
proof (induction t)
  case Nil
  then show ?case by simp
next
  case (Cons r t)
  then have r: "length r = s" and t: "\<forall>r\<in>set t. length r = s" by simp_all
  from Cons.IH [OF t] have len: "length (concat t) = length t * s"
    and rows: "map (\<lambda>i. take s (drop (i * s) (concat t))) [0..<length t] = t"
    by simp_all
  have "map (\<lambda>i. take s (drop (i * s) (concat (r # t)))) [0..<length (r # t)] =
        take s (r @ concat t) # map (\<lambda>i. take s (drop (Suc i * s) (r @ concat t))) [0..<length t]"
    by (simp add: upt_conv_Cons map_Suc_upt [symmetric] del: upt_Suc)
  also have "\<dots> = r # map (\<lambda>i. take s (drop (i * s) (concat t))) [0..<length t]"
    using r by simp
  finally show ?case using rows len r by simp
qed

lemma reshape2_id:
  assumes "length t = b" and "\<forall>r\<in>set t. length r = s"
  shows "reshape2 b s t = Inr t"
  using reshape_rows [OF assms(2)] assms(1) by (simp add: reshape2_def Let_def)

lemma stack_axis1_upt:
  assumes "0 < n" and "length (g 0) = b"
  shows "stack_axis1 (map g [0..<n]) = map (\<lambda>i. map (\<lambda>k. g k ! i) [0..<n]) [0..<b]"
  using assms by (simp add: stack_axis1_def hd_map upt_conv_Cons)

text \<open>The selection equals the reference whenever the entries that the flows return
  are absorbed by the mask: \<open>v * 0 = 0\<close> and \<open>v * 1 = v\<close>.\<close>

lemma flow_select_gather:
  fixes flows :: "('a :: {monoid_add, times, one} list list \<Rightarrow> 'a list list \<times> 'a list) list"
  assumes labels: "\<forall>l\<in>set c. 0 \<le> l \<and> l < int n"
    and rows: "length c = length residuals"
    and nonempty: "residuals \<noteq> []"
    and flows: "n \<le> length flows"
    and shapes: "\<forall>k<n.
        length (fst ((flows ! k) residuals)) = length residuals \<and>
        length (snd ((flows ! k) residuals)) = length residuals \<and>
        (\<forall>row\<in>set (fst ((flows ! k) residuals)). length row = s)"
    and masked: "\<forall>k<n.
        (\<forall>row\<in>set (fst ((flows ! k) residuals)). \<forall>v\<in>set row. v * 0 = 0 \<and> v * 1 = v) \<and>
        (\<forall>v\<in>set (snd ((flows ! k) residuals)). v * 0 = 0 \<and> v * 1 = v)"
  shows "flow_select n s flows c residuals (length residuals) =
           Inr (gather_select flows c residuals)"
proof -
  define b where "b = length residuals"
  define E where "E k = fst ((flows ! k) residuals)" for k
  define L where "L k = snd ((flows ! k) residuals)" for k
  from shapes have lenE: "\<And>k. k < n \<Longrightarrow> length (E k) = b"
    and lenL: "\<And>k. k < n \<Longrightarrow> length (L k) = b"
    and widE: "\<And>k row. k < n \<Longrightarrow> row \<in> set (E k) \<Longrightarrow> length row = s"
    by (simp_all add: b_def E_def L_def)
  from masked have okE: "\<And>k row v. k < n \<Longrightarrow> row \<in> set (E k) \<Longrightarrow> v \<in> set row \<Longrightarrow>
        v * 0 = 0 \<and> v * 1 = v"
    and okL: "\<And>k v. k < n \<Longrightarrow> v \<in> set (L k) \<Longrightarrow> v * 0 = 0 \<and> v * 1 = v"
    by (simp_all add: E_def L_def)
  from nonempty rows obtain l0 where "l0 \<in> set c" by (cases c) auto
  with labels have n: "0 < n" by auto
  from labels have lab: "\<And>i. i < b \<Longrightarrow> 0 \<le> c ! i \<and> c ! i < int n"
    using rows by (simp add: b_def)
  have guard: "\<not> (n = 0 \<or> (\<exists>l\<in>set c. l < 0 \<or> int n \<le> l))"
    using n labels by auto
  from flows have noidx: "\<not> length flows < n" by simp
  have mask: "map (one_hot_row n) c = map (\<lambda>i. one_hot_row n (c ! i)) [0..<b]"
    by (rule nth_equalityI) (simp_all add: rows b_def)
  have es: "stack_axis1 (map E [0..<n]) = map (\<lambda>i. map (\<lambda>k. E k ! i) [0..<n]) [0..<b]"
    by (rule stack_axis1_upt [OF n]) (simp add: lenE n)
  have ld: "stack_axis1 (map L [0..<n]) = map (\<lambda>i. map (\<lambda>k. L k ! i) [0..<n]) [0..<b]"
    by (rule stack_axis1_upt [OF n]) (simp add: lenL n)
  have es_sel: "map sum_axis
       (map2 (\<lambda>r mr. map2 (\<lambda>v w. map (\<lambda>x. x * w) v) r mr)
          (map (\<lambda>i. map (\<lambda>k. E k ! i) [0..<n]) [0..<b])
          (map (\<lambda>i. one_hot_row n (c ! i)) [0..<b])) =
        map (\<lambda>i. E (nat (c ! i)) ! i) [0..<b]"
  proof -
    have "sum_axis (map2 (\<lambda>v w. map (\<lambda>x. x * w) v) (map (\<lambda>k. E k ! i) [0..<n])
            (one_hot_row n (c ! i))) = E (nat (c ! i)) ! i" if i: "i < b" for i
    proof (rule masked_sum_vector [where s = s])
      show "0 \<le> c ! i" "c ! i < int n" using lab [OF i] by simp_all
      show "\<forall>k<n. length (E k ! i) = s"
        using widE lenE i by (metis nth_mem)
      show "v * 0 = 0 \<and> v * 1 = v" if "k < n" "v \<in> set (E k ! i)" for k v
        using okE [OF that(1) _ that(2)] lenE [OF that(1)] i by simp
    qed
    then show ?thesis
      by (simp add: zip_map_map zip_same_conv_map)
  qed
  have ld_sel: "map sum_list
       (map2 (\<lambda>r mr. map2 (*) r mr)
          (map (\<lambda>i. map (\<lambda>k. L k ! i) [0..<n]) [0..<b])
          (map (\<lambda>i. one_hot_row n (c ! i)) [0..<b])) =
        map (\<lambda>i. L (nat (c ! i)) ! i) [0..<b]"
  proof -
    have "sum_list (map2 (*) (map (\<lambda>k. L k ! i) [0..<n]) (one_hot_row n (c ! i))) =
            L (nat (c ! i)) ! i" if i: "i < b" for i
    proof (rule masked_sum_scalar)
      show "0 \<le> c ! i" "c ! i < int n" using lab [OF i] by simp_all
      show "L k ! i * 0 = 0" if "k < n" for k
        using okL [OF that, of "L k ! i"] lenL [OF that] i by simp
      show "L k ! i * 1 = L k ! i" if "k < n" for k
        using okL [OF that, of "L k ! i"] lenL [OF that] i by simp
    qed
    then show ?thesis
      by (simp add: zip_map_map zip_same_conv_map)
  qed
  have wid: "\<forall>r\<in>set (map (\<lambda>i. E (nat (c ! i)) ! i) [0..<b]). length r = s"
  proof
    fix r assume "r \<in> set (map (\<lambda>i. E (nat (c ! i)) ! i) [0..<b])"
    then obtain i where i: "i < b" and r: "r = E (nat (c ! i)) ! i" by auto
    from lab [OF i] have k: "nat (c ! i) < n" by linarith
    from widE [OF k] lenE [OF k] i show "length r = s"
      by (simp add: r)
  qed
  have resh: "reshape2 b s (map (\<lambda>i. E (nat (c ! i)) ! i) [0..<b]) =
        Inr (map (\<lambda>i. E (nat (c ! i)) ! i) [0..<b])"
    by (rule reshape2_id [OF _ wid]) simp
  have outs: "map fst (map (\<lambda>k. (flows ! k) residuals) [0..<n]) = map E [0..<n]"
    "map snd (map (\<lambda>k. (flows ! k) residuals) [0..<n]) = map L [0..<n]"
    by (simp_all add: E_def L_def comp_def)
  have bd: "broadcast_dim b b = Some b"
    by (simp add: broadcast_dim_def)
  have ex: "expand b (map f [0..<b]) = map f [0..<b]" for f :: "nat \<Rightarrow> 'b"
    by (simp add: expand_def)
  have "flow_select n s flows c residuals b =
          Inr (map (\<lambda>i. E (nat (c ! i)) ! i) [0..<b], map (\<lambda>i. L (nat (c ! i)) ! i) [0..<b])"
    unfolding flow_select_def
    by (simp only: Let_def guard noidx if_False outs es ld mask length_map length_upt
        diff_zero bd option.case ex es_sel ld_sel resh sum.case)
  then show ?thesis
    by (simp add: gather_select_def E_def L_def b_def)
qed

lemma finite_masked: "is_finite v \<Longrightarrow> v * 0 = 0 \<and> v * 1 = v"
  by (cases v) (simp_all add: zero_fval_def one_fval_def)

text \<open>
  Claim C2, as amended. Let the batch have rows, one label per row, every label in
  \<open>[0, nclass)\<close>, let every flow return \<open>[batch, s_dim]\<close> values and \<open>[batch]\<close>
  log-determinants, and let all these values and log-determinants be finite. Then
  applying all flows to the residuals of the whole batch, stacking, multiplying by the
  one-hot mask and summing gives, for each row, exactly the value and the
  log-determinant that the flow of the label of this row produces on this row: the
  result is that of the row-by-row reference.
\<close>

theorem masked_sum_is_gather:
  fixes flows :: "(fval list list \<Rightarrow> fval list list \<times> fval list) list"
  assumes labels: "\<forall>l\<in>set c. 0 \<le> l \<and> l < int n"
    and rows: "length c = length residuals"
    and nonempty: "residuals \<noteq> []"
    and flows: "n \<le> length flows"
    and shapes: "\<forall>k<n.
        length (fst ((flows ! k) residuals)) = length residuals \<and>
        length (snd ((flows ! k) residuals)) = length residuals \<and>
        (\<forall>row\<in>set (fst ((flows ! k) residuals)). length row = s)"
    and finite: "\<forall>k<n.
        (\<forall>row\<in>set (fst ((flows ! k) residuals)). \<forall>v\<in>set row. is_finite v) \<and>
        (\<forall>v\<in>set (snd ((flows ! k) residuals)). is_finite v)"
  shows "flow_select n s flows c residuals (length residuals) =
           Inr (gather_select flows c residuals)"
proof (rule flow_select_gather [OF labels rows nonempty flows shapes])
  show "\<forall>k<n.
        (\<forall>row\<in>set (fst ((flows ! k) residuals)). \<forall>v\<in>set row. v * 0 = 0 \<and> v * 1 = v) \<and>
        (\<forall>v\<in>set (snd ((flows ! k) residuals)). v * 0 = 0 \<and> v * 1 = v)"
    using finite finite_masked by blast
qed

text \<open>Over the real numbers of the step model every entry is absorbed by the mask.\<close>

lemma flow_select_gather_real:
  fixes flows :: "(mat \<Rightarrow> mat \<times> vec) list"
  assumes "\<forall>l\<in>set c. 0 \<le> l \<and> l < int n"
    and "length c = length residuals"
    and "residuals \<noteq> []"
    and "n \<le> length flows"
    and "\<forall>k<n.
        length (fst ((flows ! k) residuals)) = length residuals \<and>
        length (snd ((flows ! k) residuals)) = length residuals \<and>
        (\<forall>row\<in>set (fst ((flows ! k) residuals)). length row = s)"
  shows "flow_select n s flows c residuals (length residuals) =
           Inr (gather_select flows c residuals)"
  by (rule flow_select_gather [OF assms]) simp

lemma upt3: "[0..<3] = [0, Suc 0, Suc (Suc 0)]"
  by (simp add: upt_rec)

lemma demo_fp_gather:
  "gather_select demo_fp_flows [0, 1, 0] [[Fin 1], [Fin 2], [Fin 3]] =
     ([[Fin 1], [Fin 4], [Fin 3]], [Fin 0, Fin (ln 2), Fin 0])"
  by (simp add: gather_select_def demo_fp_flows_def upt3)

text \<open>Three rows with the labels 0, 1, 0: the middle row is doubled by the second
  flow, the other two are left as they are by the first.\<close>

theorem masked_sum_is_gather_witness:
  "list_all (\<lambda>l. 0 \<le> l \<and> l < int 2) [0, 1, 0] \<and>
   length [0, 1, 0 :: int] = length [[Fin 1], [Fin 2], [Fin 3]] \<and>
   2 \<le> length demo_fp_flows \<and>
   flow_select 2 1 demo_fp_flows [0, 1, 0] [[Fin 1], [Fin 2], [Fin 3]]
     (length [[Fin 1], [Fin 2], [Fin 3]]) =
     Inr (gather_select demo_fp_flows [0, 1, 0] [[Fin 1], [Fin 2], [Fin 3]]) \<and>
   gather_select demo_fp_flows [0, 1, 0] [[Fin 1], [Fin 2], [Fin 3]] =
     ([[Fin 1], [Fin 4], [Fin 3]], [Fin 0, Fin (ln 2), Fin 0])"
proof -
  let ?r = "[[Fin 1], [Fin 2], [Fin 3]]"
  have labels: "\<forall>l\<in>set [0, 1, 0]. 0 \<le> l \<and> l < int 2"
    by simp
  have labels': "list_all (\<lambda>l. 0 \<le> l \<and> l < int 2) [0, 1, 0]"
    by simp
  have rows: "length [0, 1, 0 :: int] = length ?r"
    by simp
  have nonempty: "?r \<noteq> []"
    by simp
  have flows: "2 \<le> length demo_fp_flows"
    by (simp add: demo_fp_flows_def)
  have shapes: "\<forall>k<2.
        length (fst ((demo_fp_flows ! k) ?r)) = length ?r \<and>
        length (snd ((demo_fp_flows ! k) ?r)) = length ?r \<and>
        (\<forall>row\<in>set (fst ((demo_fp_flows ! k) ?r)). length row = 1)"
    by (simp add: demo_fp_flows_def less_2_cases_iff)
  have finite: "\<forall>k<2.
        (\<forall>row\<in>set (fst ((demo_fp_flows ! k) ?r)). \<forall>v\<in>set row. is_finite v) \<and>
        (\<forall>v\<in>set (snd ((demo_fp_flows ! k) ?r)). is_finite v)"
    by (simp add: demo_fp_flows_def less_2_cases_iff)
  from masked_sum_is_gather [OF labels rows nonempty flows shapes finite]
    labels' rows flows demo_fp_gather
  show ?thesis by (intro conjI)
qed

text \<open>
  Without the finiteness the two differ. One row with label 0 and the value 1: the
  first flow, which the label selects, returns 1 with log-determinant 0, and this is
  what the reference gives. The second flow returns NaN with an infinite
  log-determinant; multiplied by the mask entry 0 both are NaN, and so are the sums.
\<close>

theorem masked_sum_nan:
  "(0 :: int) < int 2 \<and>
   (demo_fp_degenerate ! 0) [[Fin 1]] = ([[Fin 1]], [Fin 0]) \<and>
   (demo_fp_degenerate ! 1) [[Fin 1]] = ([[NaN]], [PInf]) \<and>
   flow_select 2 1 demo_fp_degenerate [0] [[Fin 1]] (length [[Fin 1]]) =
     Inr ([[NaN]], [NaN]) \<and>
   gather_select demo_fp_degenerate [0] [[Fin 1]] = ([[Fin 1]], [Fin 0])"
  by (simp add: flow_select_def gather_select_def demo_fp_degenerate_def one_hot_row_def upt2
      stack_axis1_def sum_axis_def reshape2_def Let_def zero_fval_def one_fval_def
      broadcast_dim_def expand_def)

end
